theory Spec2Isabelle
  imports Main
begin

section \<open>JavaScript values used by the calendar service\<close>

text \<open>
  The service is TypeScript on Node. Four conventions of the embedding:
  \<^item> an optional string (\<^verbatim>\<open>string | undefined\<close>) is a \<open>string option\<close>; JavaScript's
    truthiness test, which both \<^verbatim>\<open>undefined\<close> and the empty string fail, is \<open>truthy\<close>;
  \<^item> a thrown exception is the left summand of a result, \<open>exn + 'a\<close>;
  \<^item> a \<^verbatim>\<open>Date\<close> is its time value, an \<open>int\<close> of milliseconds since the epoch, and
    \<open>None\<close> is the Invalid Date (time value NaN);
  \<^item> a string is a list of code units, and a \<open>char\<close> is one of the 256 code units from
    U+0000 to U+00FF: the ASCII of tokens, provider tags and addresses, and the Latin-1
    supplement. The string functions below are the built-ins on such strings.
\<close>

datatype exn =
    UnauthorizedException string
  | BadRequestException string
  | JsError string

fun message :: "exn \<Rightarrow> string" where
  "message (UnauthorizedException m) = m"
| "message (BadRequestException m) = m"
| "message (JsError m) = m"

fun truthy :: "string option \<Rightarrow> bool" where
  "truthy None = False"
| "truthy (Some s) = (s \<noteq> [])"

text \<open>\<^verbatim>\<open>a || b\<close> on optional strings.\<close>

fun or_else :: "string option \<Rightarrow> string option \<Rightarrow> string option" where
  "or_else a b = (if truthy a then a else b)"

text \<open>
  \<^verbatim>\<open>String.prototype.toLowerCase\<close>. The code units with a lower-case partner are the
  letters A to Z and, in the Latin-1 supplement, U+00C0 to U+00DE without the multiplication
  sign U+00D7; the partner stands 32 places further on. Every other code unit is kept.
\<close>

definition upper_letters :: string where
  "upper_letters =
     ''ABCDEFGHIJKLMNOPQRSTUVWXYZ''
     @ [CHR 0xC0, CHR 0xC1, CHR 0xC2, CHR 0xC3, CHR 0xC4, CHR 0xC5, CHR 0xC6, CHR 0xC7,
        CHR 0xC8, CHR 0xC9, CHR 0xCA, CHR 0xCB, CHR 0xCC, CHR 0xCD, CHR 0xCE, CHR 0xCF,
        CHR 0xD0, CHR 0xD1, CHR 0xD2, CHR 0xD3, CHR 0xD4, CHR 0xD5, CHR 0xD6,
        CHR 0xD8, CHR 0xD9, CHR 0xDA, CHR 0xDB, CHR 0xDC, CHR 0xDD, CHR 0xDE]"

definition lower_letters :: string where
  "lower_letters =
     ''abcdefghijklmnopqrstuvwxyz''
     @ [CHR 0xE0, CHR 0xE1, CHR 0xE2, CHR 0xE3, CHR 0xE4, CHR 0xE5, CHR 0xE6, CHR 0xE7,
        CHR 0xE8, CHR 0xE9, CHR 0xEA, CHR 0xEB, CHR 0xEC, CHR 0xED, CHR 0xEE, CHR 0xEF,
        CHR 0xF0, CHR 0xF1, CHR 0xF2, CHR 0xF3, CHR 0xF4, CHR 0xF5, CHR 0xF6,
        CHR 0xF8, CHR 0xF9, CHR 0xFA, CHR 0xFB, CHR 0xFC, CHR 0xFD, CHR 0xFE]"

definition lower_char :: "char \<Rightarrow> char" where
  "lower_char c =
     (case map_of (zip upper_letters lower_letters) c of
        Some d \<Rightarrow> d
      | None \<Rightarrow> c)"

definition toLowerCase :: "string \<Rightarrow> string" where
  "toLowerCase s = map lower_char s"

text \<open>
  \<^verbatim>\<open>s.replace(pat, rep)\<close> with a string pattern: only the first occurrence of \<open>pat\<close>,
  wherever it stands in \<open>s\<close>, is replaced; a string without the pattern is returned as it is.
\<close>

fun replace :: "string \<Rightarrow> string \<Rightarrow> string \<Rightarrow> string" where
  "replace [] pat rep = (if pat = [] then rep else [])"
| "replace (c # cs) pat rep =
     (if take (length pat) (c # cs) = pat then rep @ drop (length pat) (c # cs)
      else c # replace cs pat rep)"

section \<open>Sync gateway: header validation\<close>

datatype CalendarProvider = GOOGLE | MICROSOFT

fun provider_tag :: "CalendarProvider \<Rightarrow> string" where
  "provider_tag GOOGLE = ''google''"
| "provider_tag MICROSOFT = ''microsoft''"

text \<open>\<^verbatim>\<open>Object.values(CalendarProvider)\<close>, in declaration order.\<close>

definition CalendarProvider_values :: "CalendarProvider list" where
  "CalendarProvider_values = [GOOGLE, MICROSOFT]"

definition provider_of_tag :: "string \<Rightarrow> CalendarProvider option" where
  "provider_of_tag s = find (\<lambda>p. provider_tag p = s) CalendarProvider_values"

record validated_headers =
  accessToken :: string
  validatedProvider :: CalendarProvider

text \<open>
  \<^verbatim>\<open>CalenderSyncController.validateHeaders\<close>. The four checks run in the order of the
  source: authorization present, provider present, provider known, token non-empty.
\<close>

definition validateHeaders :: "string option \<Rightarrow> string option \<Rightarrow> exn + validated_headers" where
  "validateHeaders authHeader providerHeader =
     (if \<not> truthy authHeader then
        Inl (UnauthorizedException ''Authorization header is required'')
      else if \<not> truthy providerHeader then
        Inl (BadRequestException ''X-Calendar-Provider header is required'')
      else
        (case provider_of_tag (toLowerCase (the providerHeader)) of
           None \<Rightarrow>
             Inl (BadRequestException
               ''Invalid calendar provider. Must be one of: google, microsoft'')
         | Some p \<Rightarrow>
             (let token = replace (the authHeader) ''Bearer '' [] in
              if token = [] then
                Inl (UnauthorizedException
                  ''Invalid authorization header format. Must be Bearer token'')
              else Inr \<lparr>accessToken = token, validatedProvider = p\<rparr>)))"

section \<open>Contact de-duplication\<close>

text \<open>
  A JavaScript \<^verbatim>\<open>Map\<close> keeps its entries in insertion order, and \<^verbatim>\<open>set\<close> on a fresh key
  appends; it is an association list here. Both routines only ever \<^verbatim>\<open>set\<close> a key that
  \<^verbatim>\<open>has\<close> has just reported as absent.
\<close>

type_synonym ('k, 'v) js_map = "('k \<times> 'v) list"

definition has :: "('k, 'v) js_map \<Rightarrow> 'k \<Rightarrow> bool" where
  "has m k = (map_of m k \<noteq> None)"

definition set_fresh :: "('k, 'v) js_map \<Rightarrow> 'k \<Rightarrow> 'v \<Rightarrow> ('k, 'v) js_map" where
  "set_fresh m k v = m @ [(k, v)]"

definition values_of :: "('k, 'v) js_map \<Rightarrow> 'v list" where
  "values_of m = map snd m"

subsection \<open>Google adapter\<close>




subsection \<open>Microsoft adapter\<close>

record EmailAddress =
  address :: string
  address_name :: "string option"
  address_type :: "string option"

text \<open>
  The formatted contact that \<^verbatim>\<open>getContacts\<close> hands to the routine: \<open>emailAddresses\<close> is
  always an array there (\<^verbatim>\<open>|| []\<close>), and \<open>source\<close> is \<open>contacts\<close> or \<open>people\<close>.
\<close>

record GraphContact =
  graph_id :: string
  displayName :: "string option"
  emailAddresses :: "EmailAddress list"
  mobilePhone :: "string option"
  contact_source :: string

text \<open>The inner \<^verbatim>\<open>contact.emailAddresses?.forEach\<close>: one key per address of the contact.\<close>

fun graph_email_loop ::
  "(string, GraphContact) js_map \<Rightarrow> GraphContact \<Rightarrow> EmailAddress list
     \<Rightarrow> (string, GraphContact) js_map" where
  "graph_email_loop emailMap contact [] = emailMap"
| "graph_email_loop emailMap contact (e # es) =
     (let emailKey = toLowerCase (address e)
      in if \<not> has emailMap emailKey
         then graph_email_loop (set_fresh emailMap emailKey contact) contact es
         else graph_email_loop emailMap contact es)"

text \<open>The outer \<^verbatim>\<open>contacts.forEach\<close>.\<close>

fun graph_contact_loop ::
  "(string, GraphContact) js_map \<Rightarrow> GraphContact list \<Rightarrow> (string, GraphContact) js_map" where
  "graph_contact_loop emailMap [] = emailMap"
| "graph_contact_loop emailMap (contact # contacts) =
     graph_contact_loop (graph_email_loop emailMap contact (emailAddresses contact)) contacts"

definition graph_removeDuplicateContacts :: "GraphContact list \<Rightarrow> GraphContact list" where
  "graph_removeDuplicateContacts contacts = values_of (graph_contact_loop [] contacts)"

section \<open>Dates and time validation\<close>

text \<open>
  The JavaScript runtime and the date-fns library are not part of the repository. What the
  service uses of them is taken as a parameter:
  \<^item> \<open>parseISO\<close>: date-fns \<^verbatim>\<open>parseISO(s)\<close>, the time value of the parsed text, \<open>None\<close> for
    an Invalid Date;
  \<^item> \<open>Date_parse\<close>: the time value of \<^verbatim>\<open>new Date(s)\<close>, \<open>None\<close> for an Invalid Date;
  \<^item> \<open>toISOString\<close>: \<^verbatim>\<open>Date.prototype.toISOString\<close> on a valid time value.
  A time value that a runtime returns lies within 8.64e15 milliseconds of the epoch.
  The clock (\<^verbatim>\<open>new Date()\<close>) is an explicit argument \<open>now\<close> of the functions that read it.
\<close>

record runtime =
  parseISO :: "string \<Rightarrow> int option"
  Date_parse :: "string \<Rightarrow> int option"
  toISOString :: "int \<Rightarrow> string"

text \<open>
  Relational operators on two \<^verbatim>\<open>Date\<close> objects compare the time values; every comparison
  with NaN is false.
\<close>

fun date_ge :: "int option \<Rightarrow> int option \<Rightarrow> bool" where
  "date_ge (Some a) (Some b) = (a \<ge> b)"
| "date_ge _ _ = False"

fun date_less :: "int option \<Rightarrow> int option \<Rightarrow> bool" where
  "date_less (Some a) (Some b) = (a < b)"
| "date_less _ _ = False"

fun date_le :: "int option \<Rightarrow> int option \<Rightarrow> bool" where
  "date_le (Some a) (Some b) = (a \<le> b)"
| "date_le _ _ = False"

text \<open>\<^verbatim>\<open>Math.trunc(a / b)\<close> for a positive divisor: rounding towards zero.\<close>

definition trunc_div :: "int \<Rightarrow> int \<Rightarrow> int" where
  "trunc_div a b = (if a \<ge> 0 then a div b else - ((- a) div b))"

text \<open>
  date-fns \<^verbatim>\<open>differenceInMinutes(left, right)\<close>: the number of full minutes between the two
  dates, the millisecond difference over 60000 rounded towards zero; NaN (\<open>None\<close>) when
  either date is invalid. The service only compares the result with 1440, and the rounding
  of the library's double arithmetic, which sets in beyond \<^verbatim>\<open>2^53\<close> milliseconds, cannot move a
  difference across that bound: the exact integers give the same verdicts.
\<close>

fun differenceInMinutes :: "int option \<Rightarrow> int option \<Rightarrow> int option" where
  "differenceInMinutes (Some l) (Some r) = Some (trunc_div (l - r) 60000)"
| "differenceInMinutes _ _ = None"

text \<open>\<^verbatim>\<open>n > 1440\<close> and the like on a number that may be NaN.\<close>

fun number_greater :: "int option \<Rightarrow> int \<Rightarrow> bool" where
  "number_greater (Some n) k = (n > k)"
| "number_greater None k = False"

text \<open>\<^verbatim>\<open>GoogleCalendarService.validateTimeLogic\<close>.\<close>

definition google_validateTimeLogic :: "runtime \<Rightarrow> string \<Rightarrow> string \<Rightarrow> exn + unit" where
  "google_validateTimeLogic rt startTime endTime =
     (let start = parseISO rt startTime;
          end' = parseISO rt endTime
      in if date_ge start end' then
           Inl (BadRequestException ''Start time must be before end time'')
         else
           (let durationInMinutes = differenceInMinutes end' start
            in if number_greater durationInMinutes 1440 then
                 Inl (BadRequestException ''Event duration cannot exceed 24 hours'')
               else Inr ()))"

text \<open>\<^verbatim>\<open>MicrosoftService.validateTimeLogic\<close>; \<open>now\<close> is its \<^verbatim>\<open>new Date()\<close>.\<close>

definition graph_validateTimeLogic :: "runtime \<Rightarrow> int \<Rightarrow> string \<Rightarrow> string \<Rightarrow> exn + unit" where
  "graph_validateTimeLogic rt now startTime endTime =
     (let start = parseISO rt startTime;
          end' = parseISO rt endTime
      in if start = None \<or> end' = None then
           Inl (BadRequestException ''Invalid date format. Please use ISO 8601 format.'')
         else if date_less start (Some now) then
           Inl (BadRequestException ''Start time cannot be in the past'')
         else if date_le end' start then
           Inl (BadRequestException ''End time must be after start time'')
         else
           (let durationInMinutes = differenceInMinutes end' start
            in if number_greater durationInMinutes (24 * 60) then
                 Inl (BadRequestException ''Event duration cannot exceed 24 hours'')
               else Inr ()))"

section \<open>Data model\<close>

subsection \<open>Request bodies\<close>

text \<open>
  Modelled from the spec: the enum \<^verbatim>\<open>MeetingLocationType\<close> (\<^verbatim>\<open>types/meeting-location.type\<close>)
  is imported by the adapters but is not among the sources. The adapters name three of its
  members, \<^verbatim>\<open>IN_PERSON\<close>, \<^verbatim>\<open>GOOGLE_MEET\<close> and \<^verbatim>\<open>TEAMS\<close>; the spec lists the kinds
  in-person, provider-native video, teams and other. \<open>OTHER_KIND\<close> stands for any further
  member. A member is a non-empty tag, which passes a truthiness test.
\<close>

datatype MeetingLocationType = IN_PERSON | GOOGLE_MEET | TEAMS | OTHER_KIND

text \<open>\<^verbatim>\<open>responseRequired?: boolean | 'REQUIRED' | 'OPTIONAL'\<close>.\<close>

datatype ResponseRequired = Flag bool | REQUIRED | OPTIONAL

record AttendeeDto =
  dto_email :: string
  dto_name :: "string option"
  dto_responseRequired :: "ResponseRequired option"

record CreateEventDto =
  c_title :: string
  c_leadId :: string
  c_description :: "string option"
  c_startTime :: string
  c_endTime :: string
  c_timeZone :: "string option"
  c_isAllDay :: "bool option"
  c_locationType :: MeetingLocationType
  c_locationDetails :: "string option"
  c_attendees :: "AttendeeDto list"
  c_organizer :: string
  c_outcome :: "string option"

record UpdateEventDto =
  u_title :: "string option"
  u_leadId :: "string option"
  u_description :: "string option"
  u_startTime :: "string option"
  u_endTime :: "string option"
  u_timeZone :: "string option"
  u_isAllDay :: "bool option"
  u_locationType :: "MeetingLocationType option"
  u_locationDetails :: "string option"
  u_attendees :: "AttendeeDto list option"
  u_organizer :: "string option"
  u_organizerName :: "string option"
  u_outcome :: "string option"

subsection \<open>The local mirror\<close>

record CalendarEventAttendee =
  attendee_email :: string
  attendee_name :: "string option"
  attendee_status :: "string option"

text \<open>
  The \<^verbatim>\<open>CalendarEvent\<close> document. A \<^verbatim>\<open>Date\<close> field holds a time value or the Invalid
  Date (\<open>None\<close>); \<open>isActive\<close> is the soft-delete marker, \<^verbatim>\<open>true\<close> by default.
\<close>

record CalendarEvent =
  externalId :: string
  provider :: string
  userId :: "string option"
  leadId :: "string option"
  title :: string
  description :: "string option"
  startTime :: "int option"
  endTime :: "int option"
  timeZone :: "string option"
  isAllDay :: bool
  locationType :: MeetingLocationType
  locationDetails :: "string option"
  attendees :: "CalendarEventAttendee list"
  organizer :: "string option"
  organizerName :: "string option"
  meetingLink :: "string option"
  isOnlineMeeting :: bool
  onlineMeetingProvider :: "string option"
  isActive :: bool
  outcome :: "string option"

text \<open>
  An update document (\<^verbatim>\<open>Partial<CalendarEvent>\<close>): \<open>None\<close> is a key that is absent or
  \<^verbatim>\<open>undefined\<close>, which the update leaves untouched; \<open>Some v\<close> sets the field.
\<close>

record CalendarEventPatch =
  set_title :: "string option"
  set_description :: "string option"
  set_startTime :: "int option option"
  set_endTime :: "int option option"
  set_timeZone :: "string option"
  set_isAllDay :: "bool option"
  set_locationType :: "MeetingLocationType option"
  set_locationDetails :: "string option"
  set_leadId :: "string option"
  set_attendees :: "CalendarEventAttendee list option"
  set_organizer :: "string option"
  set_organizerName :: "string option"
  set_meetingLink :: "string option"
  set_isOnlineMeeting :: "bool option"
  set_onlineMeetingProvider :: "string option"
  set_outcome :: "string option"
  set_isActive :: "bool option"

subsection \<open>Google Calendar wire format\<close>

record GoogleTime =
  g_dateTime :: "string option"
  g_date :: "string option"
  g_timeZone :: "string option"

record GoogleAttendee =
  ga_email :: string
  ga_displayName :: "string option"
  ga_name :: "string option"
  ga_responseStatus :: "string option"

record GoogleOrganizer =
  go_email :: "string option"
  go_displayName :: "string option"
  go_name :: "string option"

text \<open>
  \<open>conferenceData\<close>: a creation request (request id, solution key type) in what the adapter
  sends, entry points (type, uri) in what the provider answers.
\<close>

record ConferenceData =
  createRequest :: "(string \<times> string) option"
  entryPoints :: "(string \<times> string) list"

record GoogleCalendarEvent =
  ge_id :: string
  ge_summary :: string
  ge_description :: "string option"
  ge_start :: GoogleTime
  ge_end :: GoogleTime
  ge_location :: "string option"
  ge_attendees :: "GoogleAttendee list option"
  ge_organizer :: "GoogleOrganizer option"
  ge_hangoutLink :: "string option"
  ge_conferenceData :: "ConferenceData option"

text \<open>
  The body the adapter sends on create (\<^verbatim>\<open>googleEvent\<close>) and on update
  (\<^verbatim>\<open>Partial<GoogleCalendarEvent>\<close>); \<open>None\<close> is a key that is absent or \<^verbatim>\<open>undefined\<close>, which
  the JSON body does not carry.
\<close>

record GooglePayload =
  gp_summary :: "string option"
  gp_description :: "string option"
  gp_start :: "GoogleTime option"
  gp_end :: "GoogleTime option"
  gp_attendees :: "GoogleAttendee list option"
  gp_location :: "string option"
  gp_conferenceData :: "ConferenceData option"

record GoogleUserProfile =
  profile_name :: "string option"
  profile_email :: "string option"
  given_name :: "string option"
  family_name :: "string option"

subsection \<open>Microsoft Graph wire format\<close>

record GraphTime =
  m_dateTime :: string
  m_timeZone :: "string option"

record GraphAttendee =
  ma_address :: string
  ma_name :: "string option"
  ma_response :: "string option"
  ma_type :: "string option"

record GraphOrganizer =
  mo_address :: "string option"
  mo_name :: "string option"

record GraphEvent =
  me_id :: string
  me_subject :: string
  me_body_content :: "string option"
  me_start :: GraphTime
  me_end :: GraphTime
  me_location_displayName :: "string option"
  me_attendees :: "GraphAttendee list option"
  me_organizer :: "GraphOrganizer option"
  me_isAllDay :: "bool option"
  me_isOnlineMeeting :: "bool option"
  me_onlineMeetingProvider :: "string option"
  me_joinUrl :: "string option"

text \<open>The body sent on create (\<^verbatim>\<open>graphEvent\<close>) and on update (\<^verbatim>\<open>updatePayload\<close>).\<close>

record GraphPayload =
  mp_subject :: "string option"
  mp_body :: "(string \<times> string) option"
  mp_start :: "GraphTime option"
  mp_end :: "GraphTime option"
  mp_attendees :: "GraphAttendee list option"
  mp_isAllDay :: "bool option"
  mp_organizer_address :: "string option"
  mp_location_displayName :: "string option"
  mp_isOnlineMeeting :: "bool option"
  mp_onlineMeetingProvider :: "string option"

subsection \<open>Collaborators and the world\<close>

datatype http_body = NoBody | GoogleBody GooglePayload | GraphBody GraphPayload

text \<open>One \<^verbatim>\<open>httpService.request\<close> to a provider: method, URL after the base, bearer token, body.\<close>

record http_call =
  http_method :: string
  http_endpoint :: string
  http_token :: string
  http_body :: http_body

record ActivityPayload =
  act_leadId :: "string option"
  act_activityType :: string
  act_description :: string
  act_performedBy :: "string option"
  act_eventId :: "string option"

datatype store_call = StoreCall string string

subsection \<open>Logged meetings\<close>

datatype MeetingType = VIRTUAL | MEETING_IN_PERSON | PHONE

datatype VirtualMeetingProvider = VIA_TEAMS | VIA_GOOGLE_MEET | VIA_ZOOM | VIA_OTHER

datatype MeetingOutcome =
    FOLLOW_UP_REQUIRED | NO_RESPONSE | NO_SHOW_UP | RESCHEDULED
  | CANCELLED | SCHEDULED | COMPLETED | SUCCESSFUL

record MeetingParticipantDto =
  part_email :: string
  part_name :: "string option"
  part_isExternal :: "bool option"

record FollowUpTaskDto =
  task_title :: string
  task_description :: "string option"
  task_dueDate :: string
  task_priority :: "string option"

record LogMeetingDto =
  l_leadId :: string
  l_title :: string
  l_meetingType :: MeetingType
  l_virtualMeetingProvider :: "VirtualMeetingProvider option"
  l_meetingDateTime :: string
  l_participants :: "MeetingParticipantDto list"
  l_summary :: string
  l_outcome :: MeetingOutcome
  l_createFollowUpTask :: "bool option"
  l_followUpTask :: "FollowUpTaskDto option"
  l_attachment :: "string option"
  l_duration :: "int option"
  l_location :: "string option"

record LoggedMeetingParticipant =
  lp_email :: string
  lp_name :: "string option"
  lp_isExternal :: bool

record LoggedMeeting =
  meeting_id :: string
  meeting_title :: string
  meetingType :: MeetingType
  virtualMeetingProvider :: "VirtualMeetingProvider option"
  meetingDateTime :: "int option"
  meeting_duration :: "int option"
  meeting_summary :: string
  meeting_outcome :: MeetingOutcome
  participants :: "LoggedMeetingParticipant list"
  meeting_location :: "string option"
  meeting_leadId :: string
  loggedBy :: string
  organizationId :: string
  activityId :: "string option"
  taskId :: "string option"
  attachment :: "string option"
  meeting_isActive :: bool

record TaskPayload =
  tp_title :: string
  tp_leadId :: string
  tp_status :: string
  tp_dueDate :: string
  tp_priority :: string
  tp_assignedTo :: string
  tp_description :: "string option"
  tp_organizationId :: string
  tp_createdBy :: string

subsection \<open>The world and what lies outside it\<close>

text \<open>
  The state an operation runs in and leaves behind: the two collections of the Event Store,
  in insertion order, and the calls made so far to the provider transport, to the store, to
  the activity logger and to the task creator. The store is the in-memory collection: an
  operation whose query values have been cast to the types of the schema always completes,
  and the validation of a saved document against the schema is outside the model. The one
  cast that can fail is that of a string to an \<^verbatim>\<open>ObjectId\<close>.
\<close>

record world =
  calendarEvents :: "CalendarEvent list"
  loggedMeetings :: "LoggedMeeting list"
  transport :: "http_call list"
  storeCalls :: "store_call list"
  activityCalls :: "ActivityPayload list"
  taskCalls :: "TaskPayload list"

text \<open>
  What the collaborators answer. Each provider reply is a function of the request and of the
  number of provider requests made before it; \<open>Inl\<close> is the exception the adapter's call
  wrapper (\<^verbatim>\<open>makeGoogleApiCall\<close>, \<^verbatim>\<open>makeGraphApiCall\<close>) ends with after classifying the
  provider's error. The Google wrapper returns the body of the answer, and \<open>Inr None\<close> is
  an answer without one: the value \<^verbatim>\<open>undefined\<close>. \<open>objectId\<close> is the \<^verbatim>\<open>_id\<close> a new document receives and \<open>requestId\<close> the
  random conference request id. The \<^verbatim>\<open>_id\<close> of a logged meeting is an \<^verbatim>\<open>ObjectId\<close> (the
  schema declares none of its own) and is held as its hexadecimal text; \<open>castObjectId\<close> is
  the cast the persistence engine applies to a string that a query compares with it: the
  hexadecimal text of the id the string denotes, or \<open>None\<close> when the string denotes none and
  the query fails with a \<^verbatim>\<open>CastError\<close>.
\<close>

record outside =
  google_event_reply :: "nat \<Rightarrow> http_call \<Rightarrow> exn + GoogleCalendarEvent option"
  google_profile_reply :: "nat \<Rightarrow> http_call \<Rightarrow> exn + GoogleUserProfile"
  graph_plain_reply :: "nat \<Rightarrow> http_call \<Rightarrow> exn + unit"
  graph_event_reply :: "nat \<Rightarrow> http_call \<Rightarrow> exn + GraphEvent"
  activity_reply :: "ActivityPayload \<Rightarrow> exn + string option"
  task_reply :: "TaskPayload \<Rightarrow> exn + string option"
  objectId :: string
  requestId :: string
  castObjectId :: "string \<Rightarrow> string option"

section \<open>Primitives of the adapters\<close>

text \<open>
  \<^verbatim>\<open>String.prototype.trim\<close> strips white space and line terminators from both ends.
  Among the code units up to U+00FF these are the tab, the line feed, the vertical tab, the
  form feed, the carriage return, the space and the no-break space U+00A0.
\<close>

definition is_space :: "char \<Rightarrow> bool" where
  "is_space c =
     (c \<in> set [CHR '' '', CHR 0x09, CHR 0x0A, CHR 0x0B, CHR 0x0C, CHR 0x0D, CHR 0xA0])"

definition trim :: "string \<Rightarrow> string" where
  "trim s = rev (dropWhile is_space (rev (dropWhile is_space s)))"

text \<open>A provider request: the call is made, whatever the provider answers.\<close>

definition request :: "world \<Rightarrow> http_call \<Rightarrow> world" where
  "request w call = w\<lparr>transport := transport w @ [call]\<rparr>"

definition stored :: "world \<Rightarrow> string \<Rightarrow> string \<Rightarrow> world" where
  "stored w collection operation =
     w\<lparr>storeCalls := storeCalls w @ [StoreCall collection operation]\<rparr>"

text \<open>The first document that matches, as the \<^verbatim>\<open>...One\<close> operations of the store pick it.\<close>

fun update_first :: "('a \<Rightarrow> bool) \<Rightarrow> ('a \<Rightarrow> 'a) \<Rightarrow> 'a list \<Rightarrow> 'a list" where
  "update_first P f [] = []"
| "update_first P f (x # xs) = (if P x then f x # xs else x # update_first P f xs)"

fun delete_first :: "('a \<Rightarrow> bool) \<Rightarrow> 'a list \<Rightarrow> 'a list" where
  "delete_first P [] = []"
| "delete_first P (x # xs) = (if P x then xs else x # delete_first P xs)"

definition patched :: "'a option \<Rightarrow> 'a \<Rightarrow> 'a" where
  "patched p old = (case p of None \<Rightarrow> old | Some v \<Rightarrow> v)"

definition patched_opt :: "'a option \<Rightarrow> 'a option \<Rightarrow> 'a option" where
  "patched_opt p old = (case p of None \<Rightarrow> old | Some v \<Rightarrow> Some v)"

definition apply_patch :: "CalendarEventPatch \<Rightarrow> CalendarEvent \<Rightarrow> CalendarEvent" where
  "apply_patch p e = e
     \<lparr> leadId := patched_opt (set_leadId p) (leadId e),
       title := patched (set_title p) (title e),
       description := patched_opt (set_description p) (description e),
       startTime := patched (set_startTime p) (startTime e),
       endTime := patched (set_endTime p) (endTime e),
       timeZone := patched_opt (set_timeZone p) (timeZone e),
       isAllDay := patched (set_isAllDay p) (isAllDay e),
       locationType := patched (set_locationType p) (locationType e),
       locationDetails := patched_opt (set_locationDetails p) (locationDetails e),
       attendees := patched (set_attendees p) (attendees e),
       organizer := patched_opt (set_organizer p) (organizer e),
       organizerName := patched_opt (set_organizerName p) (organizerName e),
       meetingLink := patched_opt (set_meetingLink p) (meetingLink e),
       isOnlineMeeting := patched (set_isOnlineMeeting p) (isOnlineMeeting e),
       onlineMeetingProvider := patched_opt (set_onlineMeetingProvider p) (onlineMeetingProvider e),
       isActive := patched (set_isActive p) (isActive e),
       outcome := patched_opt (set_outcome p) (outcome e) \<rparr>"

definition no_patch :: CalendarEventPatch where
  "no_patch = \<lparr> set_title = None, set_description = None, set_startTime = None,
     set_endTime = None, set_timeZone = None, set_isAllDay = None, set_locationType = None,
     set_locationDetails = None, set_leadId = None, set_attendees = None,
     set_organizer = None, set_organizerName = None, set_meetingLink = None,
     set_isOnlineMeeting = None, set_onlineMeetingProvider = None, set_outcome = None,
     set_isActive = None \<rparr>"

text \<open>\<^verbatim>\<open>calendarEventModel.findOneAndUpdate({ externalId: eventId }, update)\<close>.\<close>

definition findOneAndUpdate :: "world \<Rightarrow> string \<Rightarrow> CalendarEventPatch \<Rightarrow> world" where
  "findOneAndUpdate w eventId update =
     (stored w ''CalendarEvent'' ''findOneAndUpdate'')
       \<lparr>calendarEvents :=
          update_first (\<lambda>e. externalId e = eventId) (apply_patch update) (calendarEvents w)\<rparr>"

text \<open>\<^verbatim>\<open>calendarEventModel.findOne({ externalId: eventId })\<close>.\<close>

definition findOne :: "world \<Rightarrow> string \<Rightarrow> CalendarEvent option \<times> world" where
  "findOne w eventId =
     (find (\<lambda>e. externalId e = eventId) (calendarEvents w),
      stored w ''CalendarEvent'' ''findOne'')"

text \<open>
  \<^verbatim>\<open>activityClientService.logActivity(payload)\<close> inside a \<^verbatim>\<open>try\<close> whose \<^verbatim>\<open>catch\<close> only logs:
  the call is made and its failure dropped.
\<close>

definition logActivity_best_effort :: "world \<Rightarrow> ActivityPayload \<Rightarrow> world" where
  "logActivity_best_effort w payload = w\<lparr>activityCalls := activityCalls w @ [payload]\<rparr>"

record DeleteEventResponse =
  del_success :: bool
  del_message :: string
  del_eventId :: string
  del_statusCode :: nat

section \<open>Deleting an event\<close>

definition deleted_activity :: "string \<Rightarrow> CalendarEvent \<Rightarrow> string \<Rightarrow> ActivityPayload" where
  "deleted_activity eventProvider eventDetails eventId =
     \<lparr> act_leadId = leadId eventDetails,
       act_activityType = ''CALENDAR_EVENT_DELETED'',
       act_description = ''Calendar event '' @ [CHR 0x27] @ title eventDetails @ [CHR 0x27]
          @ '' deleted by user'',
       act_performedBy = Some ''system'',
       act_eventId = Some eventId \<rparr>"

definition deleted_response :: "string \<Rightarrow> string \<Rightarrow> DeleteEventResponse" where
  "deleted_response msg eventId =
     \<lparr> del_success = True, del_message = msg, del_eventId = eventId, del_statusCode = 200 \<rparr>"

text \<open>
  The part both adapters share after the provider call: soft delete in the store, then the
  activity record, which is written only when the mirror holds the event with a lead id.
\<close>

definition soft_delete_local :: "string \<Rightarrow> world \<Rightarrow> string \<Rightarrow> world" where
  "soft_delete_local eventProvider w eventId =
     (let w2 = findOneAndUpdate w eventId (no_patch\<lparr>set_isActive := Some False\<rparr>);
          (eventDetails, w3) = findOne w2 eventId
      in case eventDetails of
           None \<Rightarrow> w3
         | Some ev \<Rightarrow>
             if truthy (leadId ev)
             then logActivity_best_effort w3 (deleted_activity eventProvider ev eventId)
             else w3)"

text \<open>
  \<^verbatim>\<open>GoogleCalendarService.deleteEvent\<close>. The provider call sits in a \<^verbatim>\<open>try\<close> whose
  \<^verbatim>\<open>catch\<close> warns and goes on; nothing after it can raise, so the outer \<^verbatim>\<open>catch\<close> is
  never entered.
\<close>

definition google_deleteEvent ::
  "outside \<Rightarrow> world \<Rightarrow> string \<Rightarrow> string \<Rightarrow> (exn + DeleteEventResponse) \<times> world" where
  "google_deleteEvent out w token eventId =
     (let w1 =
        (if token \<noteq> [] \<and> trim token \<noteq> [] then
           (let call = \<lparr> http_method = ''DELETE'',
                         http_endpoint = ''/calendars/primary/events/'' @ eventId,
                         http_token = token, http_body = NoBody \<rparr>
            in case google_event_reply out (length (transport w)) call of
                 Inl externalError \<Rightarrow> request w call
               | Inr _ \<Rightarrow> request w call)
         else w)
      in (Inr (deleted_response ''Event deleted successfully'' eventId),
          soft_delete_local ''google'' w1 eventId))"

text \<open>\<^verbatim>\<open>MicrosoftService.deleteEvent\<close>.\<close>

definition graph_deleteEvent ::
  "outside \<Rightarrow> world \<Rightarrow> string \<Rightarrow> string \<Rightarrow> (exn + DeleteEventResponse) \<times> world" where
  "graph_deleteEvent out w token eventId =
     (let w1 =
        (if token \<noteq> [] \<and> trim token \<noteq> [] then
           (let call = \<lparr> http_method = ''DELETE'',
                         http_endpoint = ''me/events/'' @ eventId,
                         http_token = token, http_body = NoBody \<rparr>
            in case graph_plain_reply out (length (transport w)) call of
                 Inl externalError \<Rightarrow> request w call
               | Inr _ \<Rightarrow> request w call)
         else w)
      in (Inr (deleted_response ''Event deleted successfully'' eventId),
          soft_delete_local ''microsoft'' w1 eventId))"

text \<open>
  \<^verbatim>\<open>CalenderSyncController.deleteEvent\<close>. Without either header the event is deleted
  from the local database: \<^verbatim>\<open>deleteOne\<close> on the calendar events by external id, a string;
  then \<^verbatim>\<open>deleteOne\<close> on the logged meetings by \<^verbatim>\<open>_id\<close>, for which the event id is cast to
  an \<^verbatim>\<open>ObjectId\<close>; the two \<^verbatim>\<open>deletedCount\<close>s are added. The method has no \<^verbatim>\<open>try\<close>: a
  failed cast leaves it as the \<^verbatim>\<open>CastError\<close>, after the first \<^verbatim>\<open>deleteOne\<close> has been done.
\<close>

definition cast_error :: "string \<Rightarrow> exn" where
  "cast_error v =
     JsError (''Cast to ObjectId failed for value '' @ [CHR 0x22] @ v @ [CHR 0x22]
              @ '' (type string) at path '' @ [CHR 0x22] @ ''_id'' @ [CHR 0x22]
              @ '' for model '' @ [CHR 0x22] @ ''LoggedMeeting'' @ [CHR 0x22])"

definition count_first :: "('a \<Rightarrow> bool) \<Rightarrow> 'a list \<Rightarrow> nat" where
  "count_first P xs = (if find P xs = None then 0 else 1)"

definition controller_deleteEvent ::
  "outside \<Rightarrow> world \<Rightarrow> string \<Rightarrow> string option \<Rightarrow> string option
     \<Rightarrow> (exn + DeleteEventResponse) \<times> world" where
  "controller_deleteEvent out w eventId authHeader providerHeader =
     (if \<not> truthy authHeader \<or> \<not> truthy providerHeader then
        (let deletedFromCalendar = count_first (\<lambda>e. externalId e = eventId) (calendarEvents w);
             w1 = (stored w ''CalendarEvent'' ''deleteOne'')
                    \<lparr>calendarEvents :=
                       delete_first (\<lambda>e. externalId e = eventId) (calendarEvents w)\<rparr>
         in case castObjectId out eventId of
              None \<Rightarrow> (Inl (cast_error eventId), stored w1 ''LoggedMeeting'' ''deleteOne'')
            | Some oid \<Rightarrow>
                (let deletedFromLogged =
                       count_first (\<lambda>m. meeting_id m = oid) (loggedMeetings w1);
                     w2 = (stored w1 ''LoggedMeeting'' ''deleteOne'')
                            \<lparr>loggedMeetings :=
                               delete_first (\<lambda>m. meeting_id m = oid) (loggedMeetings w1)\<rparr>;
                     deleted = deletedFromCalendar + deletedFromLogged
                 in if deleted > 0
                    then (Inr (deleted_response ''Event deleted from local database'' eventId),
                          w2)
                    else (Inl (BadRequestException ''Event not found in local database''),
                          w2)))
      else
        (case validateHeaders authHeader providerHeader of
           Inl e \<Rightarrow> (Inl e, w)
         | Inr v \<Rightarrow>
             (case validatedProvider v of
                GOOGLE \<Rightarrow> google_deleteEvent out w (accessToken v) eventId
              | MICROSOFT \<Rightarrow> graph_deleteEvent out w (accessToken v) eventId)))"

section \<open>Creating an event\<close>

text \<open>One element of the \<^verbatim>\<open>data\<close> array of a successful \<^verbatim>\<open>CalendarResponse\<close>.\<close>

record CalendarEventView =
  view_id :: string
  view_title :: string
  view_leadId :: "string option"
  view_startTime :: string
  view_endTime :: string
  view_meetingLink :: "string option"
  view_attendees :: "CalendarEventAttendee list"
  view_location :: "string option"
  view_organizer :: "string option"
  view_organizerName :: "string option"
  view_description :: "string option"
  view_isOnlineMeeting :: "bool option"
  view_onlineMeetingProvider :: "string option"
  view_outcome :: "string option"

text \<open>A template literal prints \<^verbatim>\<open>undefined\<close> for a missing string.\<close>

definition js_string :: "string option \<Rightarrow> string" where
  "js_string s = (case s of None \<Rightarrow> ''undefined'' | Some t \<Rightarrow> t)"

text \<open>\<^verbatim>\<open>a || b || ... || last\<close> over optional strings, ending in a literal.\<close>

fun first_truthy :: "string option list \<Rightarrow> string \<Rightarrow> string" where
  "first_truthy [] fallback = fallback"
| "first_truthy (a # as) fallback = (if truthy a then the a else first_truthy as fallback)"

definition save_event :: "world \<Rightarrow> CalendarEvent \<Rightarrow> world" where
  "save_event w calendarEvent =
     (stored w ''CalendarEvent'' ''save'')\<lparr>calendarEvents := calendarEvents w @ [calendarEvent]\<rparr>"

definition accepts :: "ResponseRequired option \<Rightarrow> bool" where
  "accepts r = (r = Some (Flag True) \<or> r = Some REQUIRED)"

subsection \<open>Google adapter\<close>

definition google_attendee_of_dto :: "AttendeeDto \<Rightarrow> GoogleAttendee" where
  "google_attendee_of_dto attendee =
     \<lparr> ga_email = dto_email attendee,
       ga_displayName = or_else (dto_name attendee) None,
       ga_name = None,
       ga_responseStatus =
         Some (if accepts (dto_responseRequired attendee) then ''accepted'' else ''needsAction'') \<rparr>"

definition google_attendee_view :: "GoogleAttendee \<Rightarrow> CalendarEventAttendee" where
  "google_attendee_view a =
     \<lparr> attendee_email = ga_email a, attendee_name = ga_displayName a,
       attendee_status = ga_responseStatus a \<rparr>"

definition google_attendees_view :: "GoogleAttendee list option \<Rightarrow> CalendarEventAttendee list" where
  "google_attendees_view as = (case as of None \<Rightarrow> [] | Some l \<Rightarrow> map google_attendee_view l)"

text \<open>
  \<^verbatim>\<open>getUserProfile\<close>: one request to the userinfo endpoint; any failure is caught and the
  empty profile returned. The result is the pair of \<^verbatim>\<open>name\<close> and \<^verbatim>\<open>email\<close>.
\<close>

definition getUserProfile ::
  "outside \<Rightarrow> world \<Rightarrow> string \<Rightarrow> (string option \<times> string option) \<times> world" where
  "getUserProfile out w token =
     (let call = \<lparr> http_method = ''GET'', http_endpoint = ''/userinfo'',
                    http_token = token, http_body = NoBody \<rparr>
      in case google_profile_reply out (length (transport w)) call of
           Inl error \<Rightarrow> ((None, None), request w call)
         | Inr userProfile \<Rightarrow>
             ((if truthy (profile_name userProfile) then profile_name userProfile
               else Some (js_string (given_name userProfile) @ '' ''
                            @ js_string (family_name userProfile)),
               profile_email userProfile),
              request w call))"

definition organizer_email :: "GoogleCalendarEvent \<Rightarrow> string option" where
  "organizer_email e = (case ge_organizer e of None \<Rightarrow> None | Some org \<Rightarrow> go_email org)"

definition organizer_displayName :: "GoogleCalendarEvent \<Rightarrow> string option" where
  "organizer_displayName e =
     (case ge_organizer e of None \<Rightarrow> None | Some org \<Rightarrow> go_displayName org)"

definition organizer_name :: "GoogleCalendarEvent \<Rightarrow> string option" where
  "organizer_name e = (case ge_organizer e of None \<Rightarrow> None | Some org \<Rightarrow> go_name org)"

text \<open>The request body of \<^verbatim>\<open>createEvent\<close> (\<^verbatim>\<open>googleEvent\<close>).\<close>

definition google_create_payload :: "outside \<Rightarrow> CreateEventDto \<Rightarrow> GooglePayload" where
  "google_create_payload out eventData =
     \<lparr> gp_summary = Some (c_title eventData),
       gp_description = c_description eventData,
       gp_start = Some \<lparr> g_dateTime = Some (c_startTime eventData), g_date = None,
                         g_timeZone = or_else (c_timeZone eventData) (Some ''UTC'') \<rparr>,
       gp_end = Some \<lparr> g_dateTime = Some (c_endTime eventData), g_date = None,
                       g_timeZone = or_else (c_timeZone eventData) (Some ''UTC'') \<rparr>,
       gp_attendees = Some (map google_attendee_of_dto (c_attendees eventData)),
       gp_location =
         (if c_locationType eventData = IN_PERSON then c_locationDetails eventData else None),
       gp_conferenceData =
         (if c_locationType eventData = GOOGLE_MEET
          then Some \<lparr> createRequest = Some (requestId out, ''hangoutsMeet''), entryPoints = [] \<rparr>
          else None) \<rparr>"

text \<open>The \<^verbatim>\<open>catch\<close> of \<^verbatim>\<open>createEvent\<close>: an \<^verbatim>\<open>HttpException\<close> is thrown on as it is.\<close>

definition google_create_catch :: "exn \<Rightarrow> exn" where
  "google_create_catch error =
     (case error of
        JsError m \<Rightarrow>
          BadRequestException (if m \<noteq> [] then m else ''Failed to create calendar event'')
      | _ \<Rightarrow> error)"

definition google_time_text :: "GoogleTime \<Rightarrow> string" where
  "google_time_text t = first_truthy [g_dateTime t, g_date t] []"

text \<open>The document \<^verbatim>\<open>createEvent\<close> saves; \<open>now\<close> is the clock read by \<^verbatim>\<open>new Date()\<close>.\<close>

definition google_created_document ::
  "runtime \<Rightarrow> int \<Rightarrow> CreateEventDto \<Rightarrow> GoogleCalendarEvent \<Rightarrow> string \<Rightarrow> CalendarEvent" where
  "google_created_document rt now eventData createdEvent orgName =
     \<lparr> externalId = ge_id createdEvent,
       provider = ''google'',
       userId = organizer_email createdEvent,
       leadId = Some (c_leadId eventData),
       title = ge_summary createdEvent,
       description = ge_description createdEvent,
       startTime = (if c_startTime eventData \<noteq> [] then Date_parse rt (c_startTime eventData)
                    else Some now),
       endTime = (if c_endTime eventData \<noteq> [] then Date_parse rt (c_endTime eventData)
                  else Some now),
       timeZone = g_timeZone (ge_start createdEvent),
       isAllDay = (\<not> truthy (g_dateTime (ge_start createdEvent))),
       locationType = c_locationType eventData,
       locationDetails = ge_location createdEvent,
       attendees = google_attendees_view (ge_attendees createdEvent),
       organizer = organizer_email createdEvent,
       organizerName = Some orgName,
       meetingLink = ge_hangoutLink createdEvent,
       isOnlineMeeting = (ge_conferenceData createdEvent \<noteq> None),
       onlineMeetingProvider =
         (if ge_conferenceData createdEvent \<noteq> None then Some ''google_meet'' else None),
       isActive = True,
       outcome = c_outcome eventData \<rparr>"

definition google_created_activity :: "CreateEventDto \<Rightarrow> GoogleCalendarEvent \<Rightarrow> ActivityPayload" where
  "google_created_activity eventData createdEvent =
     \<lparr> act_leadId = Some (c_leadId eventData),
       act_activityType = ''CALENDAR_EVENT_CREATED'',
       act_description = ''Calendar event '' @ [CHR 0x27] @ ge_summary createdEvent @ [CHR 0x27]
          @ '' created by ''
          @ first_truthy [organizer_name createdEvent, organizer_displayName createdEvent,
                          organizer_email createdEvent] ''user'',
       act_performedBy = Some (first_truthy [organizer_email createdEvent] ''system''),
       act_eventId = Some (ge_id createdEvent) \<rparr>"

definition google_created_view :: "CreateEventDto \<Rightarrow> GoogleCalendarEvent \<Rightarrow> CalendarEventView" where
  "google_created_view eventData createdEvent =
     \<lparr> view_id = ge_id createdEvent,
       view_title = ge_summary createdEvent,
       view_leadId = Some (c_leadId eventData),
       view_startTime = google_time_text (ge_start createdEvent),
       view_endTime = google_time_text (ge_end createdEvent),
       view_meetingLink = ge_hangoutLink createdEvent,
       view_attendees = google_attendees_view (ge_attendees createdEvent),
       view_location = ge_location createdEvent,
       view_organizer = Some (first_truthy [organizer_email createdEvent] []),
       view_organizerName = Some (first_truthy [organizer_displayName createdEvent] []),
       view_description = ge_description createdEvent,
       view_isOnlineMeeting = Some (ge_conferenceData createdEvent \<noteq> None),
       view_onlineMeetingProvider =
         (if ge_conferenceData createdEvent \<noteq> None then Some ''google_meet'' else None),
       view_outcome = c_outcome eventData \<rparr>"

text \<open>
  \<^verbatim>\<open>GoogleCalendarService.createEvent\<close>: the token check, the time validation, the POST to
  the provider, the profile lookup for the organizer name, the save into the mirror and the
  activity record, which is written for a non-empty lead id after a second profile lookup.
\<close>

definition google_createEvent ::
  "runtime \<Rightarrow> outside \<Rightarrow> int \<Rightarrow> world \<Rightarrow> string \<Rightarrow> CreateEventDto
     \<Rightarrow> (exn + CalendarEventView list) \<times> world" where
  "google_createEvent rt out now w token eventData =
     (if token = [] then
        (Inl (google_create_catch (UnauthorizedException ''Access token is required'')), w)
      else
        (case google_validateTimeLogic rt (c_startTime eventData) (c_endTime eventData) of
           Inl error \<Rightarrow> (Inl (google_create_catch error), w)
         | Inr _ \<Rightarrow>
             (let call = \<lparr> http_method = ''POST'',
                           http_endpoint = ''/calendars/primary/events?conferenceDataVersion=1'',
                           http_token = token,
                           http_body = GoogleBody (google_create_payload out eventData) \<rparr>;
                  w1 = request w call
              in case google_event_reply out (length (transport w)) call of
                   Inl error \<Rightarrow> (Inl (google_create_catch error), w1)
                 | Inr None \<Rightarrow>
                     (Inl (google_create_catch (BadRequestException
                        ''Failed to create event: No response from Google Calendar API'')), w1)
                 | Inr (Some createdEvent) \<Rightarrow>
                     (let (userProfile, w2) = getUserProfile out w1 token;
                          orgName = first_truthy
                            [fst userProfile, organizer_displayName createdEvent,
                             organizer_name createdEvent, organizer_email createdEvent] ''user'';
                          w3 = save_event w2
                                 (google_created_document rt now eventData createdEvent orgName);
                          w4 = (if c_leadId eventData \<noteq> [] then
                                  logActivity_best_effort (snd (getUserProfile out w3 token))
                                    (google_created_activity eventData createdEvent)
                                else w3)
                      in (Inr [google_created_view eventData createdEvent], w4)))))"

subsection \<open>Microsoft adapter\<close>

text \<open>
  \<^verbatim>\<open>validateCalendarAccess\<close>: a GET of \<^verbatim>\<open>me/calendar\<close>; whatever goes wrong with it is
  replaced by one \<^verbatim>\<open>UnauthorizedException\<close>.
\<close>

definition validateCalendarAccess :: "outside \<Rightarrow> world \<Rightarrow> string \<Rightarrow> (exn + unit) \<times> world" where
  "validateCalendarAccess out w token =
     (let call = \<lparr> http_method = ''GET'', http_endpoint = ''me/calendar'',
                    http_token = token, http_body = NoBody \<rparr>
      in (case graph_plain_reply out (length (transport w)) call of
            Inl error \<Rightarrow>
              Inl (UnauthorizedException
                ''Calendar access not authorized. Please connect and authorize your calendar.'')
          | Inr _ \<Rightarrow> Inr (),
          request w call))"

text \<open>\<^verbatim>\<open>email.split('@')[0]\<close>.\<close>

definition local_part :: "string \<Rightarrow> string" where
  "local_part s = takeWhile (\<lambda>c. c \<noteq> CHR ''@'') s"

definition graph_attendee_of_dto :: "AttendeeDto \<Rightarrow> GraphAttendee" where
  "graph_attendee_of_dto attendee =
     \<lparr> ma_address = dto_email attendee,
       ma_name = or_else (dto_name attendee) (Some (local_part (dto_email attendee))),
       ma_response = None,
       ma_type =
         Some (if accepts (dto_responseRequired attendee) then ''required'' else ''optional'') \<rparr>"

definition graph_attendee_view :: "GraphAttendee \<Rightarrow> CalendarEventAttendee" where
  "graph_attendee_view a =
     \<lparr> attendee_email = ma_address a, attendee_name = ma_name a,
       attendee_status = or_else (ma_response a) (Some ''none'') \<rparr>"

definition graph_attendees_view :: "GraphAttendee list option \<Rightarrow> CalendarEventAttendee list" where
  "graph_attendees_view as = (case as of None \<Rightarrow> [] | Some l \<Rightarrow> map graph_attendee_view l)"

definition graph_organizer_address :: "GraphEvent \<Rightarrow> string option" where
  "graph_organizer_address e = (case me_organizer e of None \<Rightarrow> None | Some org \<Rightarrow> mo_address org)"

definition graph_organizer_name :: "GraphEvent \<Rightarrow> string option" where
  "graph_organizer_name e = (case me_organizer e of None \<Rightarrow> None | Some org \<Rightarrow> mo_name org)"

text \<open>
  The request body of \<^verbatim>\<open>createEvent\<close>: \<^verbatim>\<open>graphEvent\<close> and the three-way branch on the
  location kind that follows it. In-person sets a location; Teams marks an online meeting;
  the final \<^verbatim>\<open>else\<close>, for every other kind, sets the same two fields as Teams.
\<close>

definition graph_create_payload :: "CreateEventDto \<Rightarrow> GraphPayload" where
  "graph_create_payload eventData =
     (let graphEvent =
        \<lparr> mp_subject = Some (c_title eventData),
          mp_body = Some (''HTML'', first_truthy [c_description eventData] []),
          mp_start = Some \<lparr> m_dateTime = c_startTime eventData,
                            m_timeZone = or_else (c_timeZone eventData) (Some ''UTC'') \<rparr>,
          mp_end = Some \<lparr> m_dateTime = c_endTime eventData,
                          m_timeZone = or_else (c_timeZone eventData) (Some ''UTC'') \<rparr>,
          mp_attendees = Some (map graph_attendee_of_dto (c_attendees eventData)),
          mp_isAllDay = Some (c_isAllDay eventData = Some True),
          mp_organizer_address = Some (c_organizer eventData),
          mp_location_displayName = None,
          mp_isOnlineMeeting = None,
          mp_onlineMeetingProvider = None \<rparr>
      in if c_locationType eventData = IN_PERSON then
           graphEvent\<lparr> mp_location_displayName :=
             Some (first_truthy [c_locationDetails eventData] ''In Person Meeting'') \<rparr>
         else if c_locationType eventData = TEAMS then
           graphEvent\<lparr> mp_isOnlineMeeting := Some True,
                        mp_onlineMeetingProvider := Some ''teamsForBusiness'' \<rparr>
         else
           graphEvent\<lparr> mp_isOnlineMeeting := Some True,
                        mp_onlineMeetingProvider := Some ''teamsForBusiness'' \<rparr>)"

text \<open>
  The text handed to \<^verbatim>\<open>new Date\<close> for the mirror: a \<open>Z\<close> is appended unless the text
  contains a \<open>Z\<close> or ends in a numeric offset (\<^verbatim>\<open>/[+-][0-9]{2}:[0-9]{2}$/\<close>).
\<close>

definition is_digit :: "char \<Rightarrow> bool" where
  "is_digit c = (c \<in> set ''0123456789'')"

definition ends_with_offset :: "string \<Rightarrow> bool" where
  "ends_with_offset s =
     (case drop (length s - 6) s of
        [sign, h1, h2, colon, m1, m2] \<Rightarrow>
          (sign = CHR ''+'' \<or> sign = CHR ''-'') \<and> is_digit h1 \<and> is_digit h2
          \<and> colon = CHR '':'' \<and> is_digit m1 \<and> is_digit m2
      | _ \<Rightarrow> False)"

definition as_utc :: "string \<Rightarrow> string" where
  "as_utc s = (if CHR ''Z'' \<in> set s \<or> ends_with_offset s then s else s @ ''Z'')"

definition graph_created_document :: "runtime \<Rightarrow> CreateEventDto \<Rightarrow> GraphEvent \<Rightarrow> CalendarEvent" where
  "graph_created_document rt eventData createdEvent =
     \<lparr> externalId = me_id createdEvent,
       provider = ''microsoft'',
       userId = graph_organizer_address createdEvent,
       leadId = Some (c_leadId eventData),
       title = me_subject createdEvent,
       description = me_body_content createdEvent,
       startTime = Date_parse rt (as_utc (c_startTime eventData)),
       endTime = Date_parse rt (as_utc (c_endTime eventData)),
       timeZone = m_timeZone (me_start createdEvent),
       isAllDay = (me_isAllDay createdEvent = Some True),
       locationType = c_locationType eventData,
       locationDetails = me_location_displayName createdEvent,
       attendees = graph_attendees_view (me_attendees createdEvent),
       organizer = graph_organizer_address createdEvent,
       organizerName = graph_organizer_name createdEvent,
       meetingLink = or_else (me_joinUrl createdEvent) None,
       isOnlineMeeting = (me_isOnlineMeeting createdEvent = Some True),
       onlineMeetingProvider = me_onlineMeetingProvider createdEvent,
       isActive = True,
       outcome = c_outcome eventData \<rparr>"

definition graph_created_activity :: "CreateEventDto \<Rightarrow> GraphEvent \<Rightarrow> ActivityPayload" where
  "graph_created_activity eventData createdEvent =
     \<lparr> act_leadId = Some (c_leadId eventData),
       act_activityType = ''CALENDAR_EVENT_CREATED'',
       act_description = ''Calendar event '' @ [CHR 0x27] @ me_subject createdEvent @ [CHR 0x27]
          @ '' created by ''
          @ js_string (or_else (graph_organizer_name createdEvent)
                         (graph_organizer_address createdEvent)),
       act_performedBy = graph_organizer_address createdEvent,
       act_eventId = Some (me_id createdEvent) \<rparr>"

definition graph_created_view :: "CreateEventDto \<Rightarrow> GraphEvent \<Rightarrow> CalendarEventView" where
  "graph_created_view eventData createdEvent =
     \<lparr> view_id = me_id createdEvent,
       view_title = me_subject createdEvent,
       view_leadId = Some (c_leadId eventData),
       view_startTime = m_dateTime (me_start createdEvent),
       view_endTime = m_dateTime (me_end createdEvent),
       view_meetingLink = or_else (me_joinUrl createdEvent) None,
       view_attendees = graph_attendees_view (me_attendees createdEvent),
       view_location = me_location_displayName createdEvent,
       view_organizer = graph_organizer_address createdEvent,
       view_organizerName = graph_organizer_name createdEvent,
       view_description = me_body_content createdEvent,
       view_isOnlineMeeting = me_isOnlineMeeting createdEvent,
       view_onlineMeetingProvider = me_onlineMeetingProvider createdEvent,
       view_outcome = c_outcome eventData \<rparr>"

text \<open>The \<^verbatim>\<open>catch\<close> of \<^verbatim>\<open>createEvent\<close>: every exception becomes a \<^verbatim>\<open>BadRequestException\<close>.\<close>

definition graph_create_catch :: "exn \<Rightarrow> exn" where
  "graph_create_catch error =
     BadRequestException (''Failed to create calendar event: '' @ message error)"

text \<open>
  \<^verbatim>\<open>MicrosoftService.createEvent\<close>. The first statement of its \<^verbatim>\<open>try\<close> is the calendar
  access check, a provider request; the time validation is the second.
\<close>

definition graph_createEvent ::
  "runtime \<Rightarrow> outside \<Rightarrow> int \<Rightarrow> world \<Rightarrow> string \<Rightarrow> CreateEventDto
     \<Rightarrow> (exn + CalendarEventView list) \<times> world" where
  "graph_createEvent rt out now w token eventData =
     (let (access, w1) = validateCalendarAccess out w token
      in case access of
           Inl error \<Rightarrow> (Inl (graph_create_catch error), w1)
         | Inr _ \<Rightarrow>
             (case graph_validateTimeLogic rt now (c_startTime eventData) (c_endTime eventData) of
                Inl error \<Rightarrow> (Inl (graph_create_catch error), w1)
              | Inr _ \<Rightarrow>
                  (let call = \<lparr> http_method = ''POST'', http_endpoint = ''me/events'',
                                http_token = token,
                                http_body = GraphBody (graph_create_payload eventData) \<rparr>;
                       w2 = request w1 call
                   in case graph_event_reply out (length (transport w1)) call of
                        Inl error \<Rightarrow> (Inl (graph_create_catch error), w2)
                      | Inr createdEvent \<Rightarrow>
                          (let w3 = save_event w2
                                      (graph_created_document rt eventData createdEvent);
                               w4 = (if c_leadId eventData \<noteq> [] then
                                       logActivity_best_effort w3
                                         (graph_created_activity eventData createdEvent)
                                     else w3)
                           in (Inr [graph_created_view eventData createdEvent], w4)))))"

section \<open>Updating an event\<close>

text \<open>
  A JavaScript number is an IEEE 754 double. Every integer of magnitude up to \<^verbatim>\<open>2^53\<close>
  (9007199254740992) is a double, and so is every time value, whose magnitude is at most
  8.64e15. The difference of two time values, and its sum with a third, can lie beyond
  \<^verbatim>\<open>2^53\<close>: there the doubles are the multiples of \<open>ulp\<close> (2 up to \<^verbatim>\<open>2^54\<close>, 4 up to
  \<^verbatim>\<open>2^55\<close>, and so on), and the result of \<^verbatim>\<open>+\<close> or \<^verbatim>\<open>-\<close> is the exact result rounded to the
  nearest of them, a tie going to the multiple whose quotient by \<open>ulp\<close> is even.
\<close>

function ulp :: "int \<Rightarrow> int" where
  "ulp a = (if a < 9007199254740992 then 1 else 2 * ulp (a div 2))"
  by pat_completeness auto
termination
  by (relation "measure nat") auto

declare ulp.simps [simp del]

definition round_half_even :: "int \<Rightarrow> int \<Rightarrow> int" where
  "round_half_even u a =
     (let q = a div u; r = a mod u
      in if 2 * r < u then q * u
         else if u < 2 * r then (q + 1) * u
         else if even q then q * u
         else (q + 1) * u)"

definition to_double :: "int \<Rightarrow> int" where
  "to_double x = sgn x * round_half_even (ulp \<bar>x\<bar>) \<bar>x\<bar>"

text \<open>
  \<^verbatim>\<open>a - b\<close> and \<^verbatim>\<open>a + b\<close> on numbers that hold integers or NaN, and \<^verbatim>\<open>new Date(number)\<close>,
  which yields the Invalid Date for NaN and for a number beyond 8.64e15 milliseconds either
  side of the epoch.
\<close>

fun time_minus :: "int option \<Rightarrow> int option \<Rightarrow> int option" where
  "time_minus (Some a) (Some b) = Some (to_double (a - b))"
| "time_minus _ _ = None"

fun time_plus :: "int option \<Rightarrow> int option \<Rightarrow> int option" where
  "time_plus (Some a) (Some b) = Some (to_double (a + b))"
| "time_plus _ _ = None"

definition new_Date_of_number :: "int option \<Rightarrow> int option" where
  "new_Date_of_number n =
     (case n of None \<Rightarrow> None
      | Some t \<Rightarrow> if \<bar>t\<bar> \<le> 8640000000000000 then Some t else None)"

text \<open>\<^verbatim>\<open>d.toISOString()\<close> throws a \<^verbatim>\<open>RangeError\<close> on the Invalid Date.\<close>

definition date_toISOString :: "runtime \<Rightarrow> int option \<Rightarrow> exn + string" where
  "date_toISOString rt d =
     (case d of None \<Rightarrow> Inl (JsError ''Invalid time value'') | Some t \<Rightarrow> Inr (toISOString rt t))"

text \<open>The \<^verbatim>\<open>catch\<close> of \<^verbatim>\<open>updateEvent\<close>, the same in both adapters.\<close>

definition update_catch :: "exn \<Rightarrow> exn" where
  "update_catch error =
     BadRequestException (''Failed to update calendar event: '' @ message error)"

subsection \<open>Google adapter\<close>

text \<open>\<^verbatim>\<open>new Date(t.dateTime || t.date || new Date())\<close>.\<close>

definition google_time_value :: "runtime \<Rightarrow> int \<Rightarrow> GoogleTime \<Rightarrow> int option" where
  "google_time_value rt now t =
     (if truthy (g_dateTime t) then Date_parse rt (the (g_dateTime t))
      else if truthy (g_date t) then Date_parse rt (the (g_date t))
      else Some now)"

text \<open>
  The start and end of the update body (``Handle start time'' and ``Handle end time''). With
  a start and no end, the end is computed from the existing duration; with an end and no
  start, the existing start text is sent again.
\<close>

definition google_update_times ::
  "runtime \<Rightarrow> int \<Rightarrow> GoogleCalendarEvent \<Rightarrow> UpdateEventDto
     \<Rightarrow> exn + GoogleTime option \<times> GoogleTime option" where
  "google_update_times rt now existingEvent eventData =
     (let start1 =
            (if truthy (u_startTime eventData) then
               Some \<lparr> g_dateTime = u_startTime eventData, g_date = None,
                      g_timeZone = or_else (u_timeZone eventData)
                                     (g_timeZone (ge_start existingEvent)) \<rparr>
             else None);
          end1 =
            (if truthy (u_startTime eventData) \<and> \<not> truthy (u_endTime eventData) then
               (let existingStart = google_time_value rt now (ge_start existingEvent);
                    existingEnd = google_time_value rt now (ge_end existingEvent);
                    duration = time_minus existingEnd existingStart;
                    newStart = Date_parse rt (the (u_startTime eventData));
                    newEnd = new_Date_of_number (time_plus newStart duration)
                in case date_toISOString rt newEnd of
                     Inl error \<Rightarrow> Inl error
                   | Inr text \<Rightarrow>
                       Inr (Some \<lparr> g_dateTime = Some text, g_date = None,
                                   g_timeZone = or_else (u_timeZone eventData)
                                                  (g_timeZone (ge_end existingEvent)) \<rparr>))
             else Inr None)
      in case end1 of
           Inl error \<Rightarrow> Inl error
         | Inr end2 \<Rightarrow>
             if truthy (u_endTime eventData) then
               Inr (if \<not> truthy (u_startTime eventData) then
                      Some \<lparr> g_dateTime = Some (google_time_text (ge_start existingEvent)),
                             g_date = None,
                             g_timeZone = or_else (u_timeZone eventData)
                                            (g_timeZone (ge_start existingEvent)) \<rparr>
                    else start1,
                    Some \<lparr> g_dateTime = u_endTime eventData, g_date = None,
                           g_timeZone = or_else (u_timeZone eventData)
                                          (g_timeZone (ge_end existingEvent)) \<rparr>)
             else Inr (start1, end2))"

text \<open>
  The \<^verbatim>\<open>TypeError\<close> of Node for a property read on \<^verbatim>\<open>undefined\<close>.
\<close>

definition undefined_read :: "string \<Rightarrow> exn" where
  "undefined_read property =
     JsError (''Cannot read properties of undefined (reading '' @ [CHR 0x27] @ property
              @ [CHR 0x27] @ '')'')"

text \<open>
  The same two blocks when the GET was answered with an empty body and \<^verbatim>\<open>existingEvent\<close> is
  \<^verbatim>\<open>undefined\<close>. The event is read only where the blocks need it:
  \<^verbatim>\<open>eventData.timeZone || existingEvent.start.timeZone\<close> reads it when the request names no
  time zone, and the two fallbacks (computed end, existing start) always read its start
  first. So a request with start, end and time zone builds both times from the request, a
  request with neither start nor end builds none, and every other request ends in the
  \<^verbatim>\<open>TypeError\<close> of its first read.
\<close>

definition google_update_times_undefined ::
  "UpdateEventDto \<Rightarrow> exn + GoogleTime option \<times> GoogleTime option" where
  "google_update_times_undefined eventData =
     (if truthy (u_startTime eventData) then
        (if truthy (u_timeZone eventData) \<and> truthy (u_endTime eventData) then
           Inr (Some \<lparr> g_dateTime = u_startTime eventData, g_date = None,
                       g_timeZone = u_timeZone eventData \<rparr>,
                Some \<lparr> g_dateTime = u_endTime eventData, g_date = None,
                       g_timeZone = u_timeZone eventData \<rparr>)
         else Inl (undefined_read ''start''))
      else if truthy (u_endTime eventData) then
        Inl (undefined_read (if truthy (u_timeZone eventData) then ''start'' else ''end''))
      else Inr (None, None))"

text \<open>
  The whole update body (\<^verbatim>\<open>googleEvent\<close>): the two times as above, and every other field
  only when the request names it.
\<close>

definition google_update_payload ::
  "runtime \<Rightarrow> outside \<Rightarrow> int \<Rightarrow> GoogleCalendarEvent option \<Rightarrow> UpdateEventDto
     \<Rightarrow> exn + GooglePayload" where
  "google_update_payload rt out now existingEvent eventData =
     (case (case existingEvent of
              None \<Rightarrow> google_update_times_undefined eventData
            | Some existing \<Rightarrow> google_update_times rt now existing eventData) of
        Inl error \<Rightarrow> Inl error
      | Inr (start2, end2) \<Rightarrow>
          Inr \<lparr> gp_summary = or_else (u_title eventData) None,
                gp_description = or_else (u_description eventData) None,
                gp_start = start2,
                gp_end = end2,
                gp_attendees = map_option (map google_attendee_of_dto) (u_attendees eventData),
                gp_location =
                  (if truthy (u_locationDetails eventData) then u_locationDetails eventData
                   else if u_locationType eventData = Some IN_PERSON
                   then u_locationDetails eventData
                   else None),
                gp_conferenceData =
                  (if u_locationType eventData = Some GOOGLE_MEET
                   then Some \<lparr> createRequest = Some (requestId out, ''hangoutsMeet''),
                                entryPoints = [] \<rparr>
                   else None) \<rparr>)"









subsection \<open>Microsoft adapter\<close>

definition graph_zone :: "UpdateEventDto \<Rightarrow> GraphTime \<Rightarrow> string option" where
  "graph_zone eventData t = Some (first_truthy [u_timeZone eventData, m_timeZone t] ''UTC'')"

text \<open>The start and end of \<^verbatim>\<open>updatePayload\<close>, by the same two rules as in the Google adapter.\<close>

definition graph_update_times ::
  "runtime \<Rightarrow> GraphEvent \<Rightarrow> UpdateEventDto \<Rightarrow> exn + GraphTime option \<times> GraphTime option" where
  "graph_update_times rt existingEvent eventData =
     (let start1 =
            (if truthy (u_startTime eventData) then
               Some \<lparr> m_dateTime = the (u_startTime eventData),
                      m_timeZone = graph_zone eventData (me_start existingEvent) \<rparr>
             else None);
          end1 =
            (if truthy (u_startTime eventData) \<and> \<not> truthy (u_endTime eventData) then
               (let existingStart = Date_parse rt (m_dateTime (me_start existingEvent));
                    existingEnd = Date_parse rt (m_dateTime (me_end existingEvent));
                    duration = time_minus existingEnd existingStart;
                    newStart = Date_parse rt (the (u_startTime eventData));
                    newEnd = new_Date_of_number (time_plus newStart duration)
                in case date_toISOString rt newEnd of
                     Inl error \<Rightarrow> Inl error
                   | Inr text \<Rightarrow>
                       Inr (Some \<lparr> m_dateTime = text,
                                   m_timeZone = graph_zone eventData (me_end existingEvent) \<rparr>))
             else Inr None)
      in case end1 of
           Inl error \<Rightarrow> Inl error
         | Inr end2 \<Rightarrow>
             if truthy (u_endTime eventData) then
               Inr (if \<not> truthy (u_startTime eventData) then
                      Some \<lparr> m_dateTime = m_dateTime (me_start existingEvent),
                             m_timeZone = graph_zone eventData (me_start existingEvent) \<rparr>
                    else start1,
                    Some \<lparr> m_dateTime = the (u_endTime eventData),
                           m_timeZone = graph_zone eventData (me_end existingEvent) \<rparr>)
             else Inr (start1, end2))"

definition graph_update_attendee :: "AttendeeDto \<Rightarrow> GraphAttendee" where
  "graph_update_attendee attendee =
     \<lparr> ma_address = dto_email attendee,
       ma_name = or_else (dto_name attendee) (Some (local_part (dto_email attendee))),
       ma_response = Some ''notResponded'',
       ma_type = Some ''required'' \<rparr>"

text \<open>
  The whole \<^verbatim>\<open>updatePayload\<close>. When the request carries a location kind, in-person clears
  the online flag, and Teams and every other kind alike set it with the Teams provider tag.
\<close>

definition graph_update_payload ::
  "runtime \<Rightarrow> GraphEvent \<Rightarrow> UpdateEventDto \<Rightarrow> exn + GraphPayload" where
  "graph_update_payload rt existingEvent eventData =
     (case graph_update_times rt existingEvent eventData of
        Inl error \<Rightarrow> Inl error
      | Inr (start2, end2) \<Rightarrow>
          Inr \<lparr> mp_subject = or_else (u_title eventData) None,
                mp_body = (if truthy (u_description eventData)
                           then Some (''HTML'', the (u_description eventData)) else None),
                mp_start = start2,
                mp_end = end2,
                mp_attendees = map_option (map graph_update_attendee) (u_attendees eventData),
                mp_isAllDay = u_isAllDay eventData,
                mp_organizer_address = None,
                mp_location_displayName = or_else (u_locationDetails eventData) None,
                mp_isOnlineMeeting =
                  (case u_locationType eventData of
                     None \<Rightarrow> None
                   | Some kind \<Rightarrow>
                       if kind = IN_PERSON then Some False
                       else if kind = TEAMS then Some True
                       else Some True),
                mp_onlineMeetingProvider =
                  (case u_locationType eventData of
                     None \<Rightarrow> None
                   | Some kind \<Rightarrow>
                       if kind = IN_PERSON then None
                       else if kind = TEAMS then Some ''teamsForBusiness''
                       else Some ''teamsForBusiness'') \<rparr>)"

text \<open>
  \<^verbatim>\<open>updateData\<close> for the mirror. The two times are parsed from the request text, each only
  when the request carries it.
\<close>

definition graph_updateData :: "runtime \<Rightarrow> UpdateEventDto \<Rightarrow> GraphEvent \<Rightarrow> CalendarEventPatch" where
  "graph_updateData rt eventData updatedEvent =
     \<lparr> set_title = (if truthy (u_title eventData) then Some (me_subject updatedEvent) else None),
       set_description =
         (if truthy (u_description eventData) then me_body_content updatedEvent else None),
       set_startTime =
         (if truthy (u_startTime eventData)
          then Some (Date_parse rt (as_utc (the (u_startTime eventData)))) else None),
       set_endTime =
         (if truthy (u_endTime eventData)
          then Some (Date_parse rt (as_utc (the (u_endTime eventData)))) else None),
       set_timeZone =
         (if truthy (u_timeZone eventData) then m_timeZone (me_start updatedEvent) else None),
       set_isAllDay = (if u_isAllDay eventData \<noteq> None then me_isAllDay updatedEvent else None),
       set_locationType = u_locationType eventData,
       set_locationDetails =
         (if truthy (u_locationDetails eventData) then me_location_displayName updatedEvent
          else None),
       set_leadId = or_else (u_leadId eventData) None,
       set_attendees =
         (if u_attendees eventData \<noteq> None
          then Some (graph_attendees_view (me_attendees updatedEvent)) else None),
       set_organizer =
         (if truthy (u_organizer eventData) then graph_organizer_address updatedEvent else None),
       set_organizerName =
         (if truthy (u_organizerName eventData) then graph_organizer_name updatedEvent
          else None),
       set_meetingLink = or_else (me_joinUrl updatedEvent) None,
       set_isOnlineMeeting = me_isOnlineMeeting updatedEvent,
       set_onlineMeetingProvider = or_else (me_onlineMeetingProvider updatedEvent) None,
       set_outcome = or_else (u_outcome eventData) None,
       set_isActive = None \<rparr>"

text \<open>\<^verbatim>\<open>Object.keys(updateData).length > 0\<close>: one of the guards above held.\<close>

definition graph_updateData_has_keys :: "UpdateEventDto \<Rightarrow> GraphEvent \<Rightarrow> bool" where
  "graph_updateData_has_keys eventData updatedEvent =
     (truthy (u_title eventData) \<or> truthy (u_description eventData)
      \<or> truthy (u_startTime eventData) \<or> truthy (u_endTime eventData)
      \<or> truthy (u_timeZone eventData) \<or> u_isAllDay eventData \<noteq> None
      \<or> u_locationType eventData \<noteq> None \<or> truthy (u_locationDetails eventData)
      \<or> truthy (u_leadId eventData) \<or> u_attendees eventData \<noteq> None
      \<or> truthy (u_organizer eventData) \<or> truthy (me_joinUrl updatedEvent)
      \<or> me_isOnlineMeeting updatedEvent \<noteq> None
      \<or> truthy (me_onlineMeetingProvider updatedEvent)
      \<or> truthy (u_outcome eventData) \<or> truthy (u_organizerName eventData))"

definition graph_updated_activity :: "string option \<Rightarrow> GraphEvent \<Rightarrow> ActivityPayload" where
  "graph_updated_activity lead updatedEvent =
     \<lparr> act_leadId = lead,
       act_activityType = ''CALENDAR_EVENT_UPDATED'',
       act_description = ''Calendar event '' @ [CHR 0x27] @ me_subject updatedEvent @ [CHR 0x27]
          @ '' updated by ''
          @ first_truthy [graph_organizer_name updatedEvent,
                          graph_organizer_address updatedEvent] ''user'',
       act_performedBy = Some (first_truthy [graph_organizer_address updatedEvent] ''system''),
       act_eventId = Some (me_id updatedEvent) \<rparr>"

definition graph_updated_view :: "UpdateEventDto \<Rightarrow> GraphEvent \<Rightarrow> CalendarEventView" where
  "graph_updated_view eventData updatedEvent =
     \<lparr> view_id = me_id updatedEvent,
       view_title = me_subject updatedEvent,
       view_leadId = Some (first_truthy [u_leadId eventData] []),
       view_startTime = m_dateTime (me_start updatedEvent),
       view_endTime = m_dateTime (me_end updatedEvent),
       view_meetingLink = None,
       view_attendees = graph_attendees_view (me_attendees updatedEvent),
       view_location = me_location_displayName updatedEvent,
       view_organizer = Some (first_truthy [graph_organizer_address updatedEvent] ''system''),
       view_organizerName = graph_organizer_name updatedEvent,
       view_description = me_body_content updatedEvent,
       view_isOnlineMeeting = me_isOnlineMeeting updatedEvent,
       view_onlineMeetingProvider = me_onlineMeetingProvider updatedEvent,
       view_outcome = None \<rparr>"

text \<open>
  What \<^verbatim>\<open>updateEvent\<close> does once the provider has answered the PATCH. The activity call
  is not guarded here: its failure reaches the \<^verbatim>\<open>catch\<close> of \<^verbatim>\<open>updateEvent\<close>.
\<close>

definition graph_update_mirror ::
  "runtime \<Rightarrow> outside \<Rightarrow> world \<Rightarrow> string \<Rightarrow> UpdateEventDto \<Rightarrow> GraphEvent
     \<Rightarrow> (exn + CalendarEventView list) \<times> world" where
  "graph_update_mirror rt out w eventId eventData updatedEvent =
     (let w1 = (if graph_updateData_has_keys eventData updatedEvent
                then findOneAndUpdate w eventId (graph_updateData rt eventData updatedEvent)
                else w);
          (lead, w2) =
            (if truthy (u_leadId eventData) then (u_leadId eventData, w1)
             else (let (found, w') = findOne w1 eventId
                   in (case found of None \<Rightarrow> None | Some ev \<Rightarrow> leadId ev, w')))
      in if truthy lead then
           (let payload = graph_updated_activity lead updatedEvent;
                w3 = w2\<lparr>activityCalls := activityCalls w2 @ [payload]\<rparr>
            in case activity_reply out payload of
                 Inl error \<Rightarrow> (Inl (update_catch error), w3)
               | Inr _ \<Rightarrow> (Inr [graph_updated_view eventData updatedEvent], w3))
         else (Inr [graph_updated_view eventData updatedEvent], w2))"

definition graph_event_call :: "string \<Rightarrow> string \<Rightarrow> string \<Rightarrow> http_body \<Rightarrow> http_call" where
  "graph_event_call method token eventId body =
     \<lparr> http_method = method, http_endpoint = ''me/events/'' @ eventId,
       http_token = token, http_body = body \<rparr>"

text \<open>
  \<^verbatim>\<open>MicrosoftService.updateEvent\<close>. The calendar access check stands before the \<^verbatim>\<open>try\<close>,
  so its \<^verbatim>\<open>UnauthorizedException\<close> leaves the method as it is.
\<close>

definition graph_updateEvent ::
  "runtime \<Rightarrow> outside \<Rightarrow> int \<Rightarrow> world \<Rightarrow> string \<Rightarrow> string \<Rightarrow> UpdateEventDto
     \<Rightarrow> (exn + CalendarEventView list) \<times> world" where
  "graph_updateEvent rt out now w token eventId eventData =
     (let (access, w0) = validateCalendarAccess out w token
      in case access of
           Inl error \<Rightarrow> (Inl error, w0)
         | Inr _ \<Rightarrow>
             (let get = graph_event_call ''GET'' token eventId NoBody;
                  w1 = request w0 get
              in case graph_event_reply out (length (transport w0)) get of
                   Inl error \<Rightarrow> (Inl (update_catch error), w1)
                 | Inr existingEvent \<Rightarrow>
                     (case (if truthy (u_startTime eventData) \<and> truthy (u_endTime eventData)
                            then graph_validateTimeLogic rt now (the (u_startTime eventData))
                                   (the (u_endTime eventData))
                            else Inr ()) of
                        Inl error \<Rightarrow> (Inl (update_catch error), w1)
                      | Inr _ \<Rightarrow>
                          (case graph_update_payload rt existingEvent eventData of
                             Inl error \<Rightarrow> (Inl (update_catch error), w1)
                           | Inr updatePayload \<Rightarrow>
                               (let patch = graph_event_call ''PATCH'' token eventId
                                              (GraphBody updatePayload);
                                    w2 = request w1 patch
                                in case graph_event_reply out (length (transport w1)) patch of
                                     Inl error \<Rightarrow> (Inl (update_catch error), w2)
                                   | Inr updatedEvent \<Rightarrow>
                                       graph_update_mirror rt out w2 eventId eventData
                                         updatedEvent)))))"

section \<open>The unified local feed\<close>

text \<open>
  \<^verbatim>\<open>Array.prototype.sort(comparefn)\<close>: a stable sort; \<open>comparefn a b > 0\<close> puts \<open>a\<close> after
  \<open>b\<close>, and a NaN answer counts as zero. It is the stable insertion sort here.
\<close>

fun js_insert :: "('a \<Rightarrow> 'a \<Rightarrow> int option) \<Rightarrow> 'a \<Rightarrow> 'a list \<Rightarrow> 'a list" where
  "js_insert comparefn x [] = [x]"
| "js_insert comparefn x (y # ys) =
     (if number_greater (comparefn x y) 0 then y # js_insert comparefn x ys else x # y # ys)"

definition js_sort :: "('a \<Rightarrow> 'a \<Rightarrow> int option) \<Rightarrow> 'a list \<Rightarrow> 'a list" where
  "js_sort comparefn xs = foldr (js_insert comparefn) xs []"

text \<open>
  One element of the feed. The fields kept are those the builder computes or orders by;
  attendees, outcome, attachment and the ids of the linked activity and task are copied
  through by the source and left out here.
\<close>

record FeedItem =
  feed_id :: string
  feed_title :: string
  feed_startTime :: string
  feed_endTime :: string
  feed_meetingLink :: "string option"
  feed_location :: "string option"
  feed_organizer :: "string option"
  feed_organizerName :: "string option"
  feed_description :: "string option"
  feed_isOnlineMeeting :: bool
  feed_onlineMeetingProvider :: "string option"
  feed_leadId :: "string option"
  feed_timeZone :: "string option"
  feed_source :: string
  feed_isLoggedMeeting :: bool

fun virtual_provider_tag :: "VirtualMeetingProvider \<Rightarrow> string" where
  "virtual_provider_tag VIA_TEAMS = ''TEAMS''"
| "virtual_provider_tag VIA_GOOGLE_MEET = ''GOOGLE_MEET''"
| "virtual_provider_tag VIA_ZOOM = ''ZOOM''"
| "virtual_provider_tag VIA_OTHER = ''OTHER''"

text \<open>The organizer name of a calendar event in the feed, with its two fallbacks.\<close>

definition feed_organizerName_of ::
  "string option \<times> string option \<Rightarrow> CalendarEvent \<Rightarrow> string option" where
  "feed_organizerName_of userProfile event =
     (let name1 = (if \<not> truthy (organizerName event) \<and> truthy (fst userProfile)
                      \<and> organizer event = snd userProfile
                   then fst userProfile else organizerName event)
      in if \<not> truthy name1 then Some (first_truthy [organizer event] ''user'') else name1)"

definition map_calendar_event ::
  "runtime \<Rightarrow> string option \<times> string option \<Rightarrow> CalendarEvent \<Rightarrow> exn + FeedItem" where
  "map_calendar_event rt userProfile event =
     (case date_toISOString rt (startTime event) of
        Inl error \<Rightarrow> Inl error
      | Inr startText \<Rightarrow>
          (case date_toISOString rt (endTime event) of
             Inl error \<Rightarrow> Inl error
           | Inr endText \<Rightarrow>
               Inr \<lparr> feed_id = externalId event,
                     feed_title = title event,
                     feed_startTime = startText,
                     feed_endTime = endText,
                     feed_meetingLink = meetingLink event,
                     feed_location = locationDetails event,
                     feed_organizer = organizer event,
                     feed_organizerName = feed_organizerName_of userProfile event,
                     feed_description = description event,
                     feed_isOnlineMeeting = isOnlineMeeting event,
                     feed_onlineMeetingProvider = onlineMeetingProvider event,
                     feed_leadId = leadId event,
                     feed_timeZone = timeZone event,
                     feed_source = ''calendar_event'',
                     feed_isLoggedMeeting = False \<rparr>))"

definition map_logged_meeting :: "runtime \<Rightarrow> LoggedMeeting \<Rightarrow> exn + FeedItem" where
  "map_logged_meeting rt meeting =
     (case date_toISOString rt (meetingDateTime meeting) of
        Inl error \<Rightarrow> Inl error
      | Inr text \<Rightarrow>
          Inr \<lparr> feed_id = meeting_id meeting,
                feed_title = meeting_title meeting,
                feed_startTime = text,
                feed_endTime = text,
                feed_meetingLink = None,
                feed_location = meeting_location meeting,
                feed_organizer = Some (loggedBy meeting),
                feed_organizerName = Some (loggedBy meeting),
                feed_description = Some (meeting_summary meeting),
                feed_isOnlineMeeting = (meetingType meeting = VIRTUAL),
                feed_onlineMeetingProvider =
                  map_option virtual_provider_tag (virtualMeetingProvider meeting),
                feed_leadId = Some (meeting_leadId meeting),
                feed_timeZone = None,
                feed_source = ''logged_meeting'',
                feed_isLoggedMeeting = True \<rparr>)"

text \<open>\<^verbatim>\<open>xs.map(f)\<close> with an \<open>f\<close> that may throw: the first exception ends the map.\<close>

fun map_throwing :: "('a \<Rightarrow> exn + 'b) \<Rightarrow> 'a list \<Rightarrow> exn + 'b list" where
  "map_throwing f [] = Inr []"
| "map_throwing f (x # xs) =
     (case f x of
        Inl error \<Rightarrow> Inl error
      | Inr y \<Rightarrow> (case map_throwing f xs of Inl error \<Rightarrow> Inl error | Inr ys \<Rightarrow> Inr (y # ys)))"

text \<open>The comparator of the feed: \<^verbatim>\<open>new Date(b.startTime).getTime() - new Date(a.startTime).getTime()\<close>.\<close>

definition feed_compare :: "runtime \<Rightarrow> FeedItem \<Rightarrow> FeedItem \<Rightarrow> int option" where
  "feed_compare rt a b =
     time_minus (Date_parse rt (feed_startTime b)) (Date_parse rt (feed_startTime a))"

definition merge_feed :: "runtime \<Rightarrow> FeedItem list \<Rightarrow> FeedItem list \<Rightarrow> FeedItem list" where
  "merge_feed rt mappedCalendarEvents mappedLoggedMeetings =
     js_sort (feed_compare rt) (mappedCalendarEvents @ mappedLoggedMeetings)"

definition calendar_query ::
  "string option \<Rightarrow> string option \<Rightarrow> string option \<Rightarrow> CalendarEvent \<Rightarrow> bool" where
  "calendar_query providerFilter userFilter leadFilter e =
     (isActive e
      \<and> (truthy providerFilter \<longrightarrow> provider e = toLowerCase (the providerFilter))
      \<and> (truthy userFilter \<longrightarrow> userId e = userFilter)
      \<and> (truthy leadFilter \<longrightarrow> leadId e = leadFilter))"

definition logged_query :: "string option \<Rightarrow> LoggedMeeting \<Rightarrow> bool" where
  "logged_query leadFilter m =
     (meeting_isActive m \<and> (truthy leadFilter \<longrightarrow> meeting_leadId m = the leadFilter))"

definition getLocalEvents_catch :: "exn \<Rightarrow> exn" where
  "getLocalEvents_catch error =
     BadRequestException (''Failed to fetch local events: '' @ message error)"

text \<open>
  \<^verbatim>\<open>CalenderSyncController.getLocalEvents\<close>: the two queries, the optional profile
  lookup (for the provider header \<open>google\<close> with an authorization header), the two maps and
  the sort of their concatenation.
\<close>

definition getLocalEvents ::
  "runtime \<Rightarrow> outside \<Rightarrow> world \<Rightarrow> string option \<Rightarrow> string option \<Rightarrow> string option
     \<Rightarrow> string option \<Rightarrow> string option \<Rightarrow> (exn + FeedItem list) \<times> world" where
  "getLocalEvents rt out w providerFilter userFilter leadFilter authHeader calendarProvider =
     (let found = filter (calendar_query providerFilter userFilter leadFilter) (calendarEvents w);
          w1 = stored w ''CalendarEvent'' ''find'';
          logged = filter (logged_query leadFilter) (loggedMeetings w1);
          w2 = stored w1 ''LoggedMeeting'' ''find'';
          (userProfile, w3) =
            (if calendarProvider = Some ''google'' \<and> truthy authHeader
             then getUserProfile out w2 (replace (the authHeader) ''Bearer '' [])
             else ((None, None), w2))
      in case map_throwing (map_calendar_event rt userProfile) found of
           Inl error \<Rightarrow> (Inl (getLocalEvents_catch error), w3)
         | Inr mappedCalendarEvents \<Rightarrow>
             (case map_throwing (map_logged_meeting rt) logged of
                Inl error \<Rightarrow> (Inl (getLocalEvents_catch error), w3)
              | Inr mappedLoggedMeetings \<Rightarrow>
                  (Inr (merge_feed rt mappedCalendarEvents mappedLoggedMeetings), w3)))"

section \<open>Logging a meeting\<close>

record LogMeetingResponse =
  log_success :: bool
  log_meetingId :: string
  log_activityId :: "string option"
  log_taskId :: "string option"
  log_message :: string

definition logMeeting_catch :: "exn \<Rightarrow> exn" where
  "logMeeting_catch error = BadRequestException (''Failed to log meeting: '' @ message error)"

text \<open>The three checks at the head of \<^verbatim>\<open>logMeeting\<close>, in their order.\<close>

definition logMeeting_validate :: "LogMeetingDto \<Rightarrow> string option \<Rightarrow> exn + unit" where
  "logMeeting_validate logMeetingDto orgId =
     (if \<not> truthy orgId then
        Inl (BadRequestException ''X-Organization-ID header is required'')
      else if l_meetingType logMeetingDto = VIRTUAL
              \<and> l_virtualMeetingProvider logMeetingDto = None then
        Inl (BadRequestException ''Virtual meeting provider is required for virtual meetings'')
      else if l_createFollowUpTask logMeetingDto = Some True
              \<and> l_followUpTask logMeetingDto = None then
        Inl (BadRequestException
          ''Follow-up task details are required when createFollowUpTask is true'')
      else Inr ())"

definition logged_document :: "runtime \<Rightarrow> outside \<Rightarrow> LogMeetingDto \<Rightarrow> string \<Rightarrow> LoggedMeeting" where
  "logged_document rt out logMeetingDto orgId =
     \<lparr> meeting_id = objectId out,
       meeting_title = l_title logMeetingDto,
       meetingType = l_meetingType logMeetingDto,
       virtualMeetingProvider = l_virtualMeetingProvider logMeetingDto,
       meetingDateTime = Date_parse rt (l_meetingDateTime logMeetingDto),
       meeting_duration = l_duration logMeetingDto,
       meeting_summary = l_summary logMeetingDto,
       meeting_outcome = l_outcome logMeetingDto,
       participants =
         map (\<lambda>p. \<lparr> lp_email = part_email p, lp_name = part_name p,
                      lp_isExternal = (part_isExternal p = Some True) \<rparr>)
           (l_participants logMeetingDto),
       meeting_location = l_location logMeetingDto,
       meeting_leadId = l_leadId logMeetingDto,
       loggedBy = ''system'',
       organizationId = orgId,
       activityId = None,
       taskId = None,
       attachment = l_attachment logMeetingDto,
       meeting_isActive = True \<rparr>"

definition logged_activity :: "outside \<Rightarrow> LogMeetingDto \<Rightarrow> ActivityPayload" where
  "logged_activity out logMeetingDto =
     \<lparr> act_leadId = Some (l_leadId logMeetingDto),
       act_activityType = ''CALENDAR_EVENT_CREATED'',
       act_description = ''Meeting logged: '' @ l_title logMeetingDto,
       act_performedBy = Some ''system'',
       act_eventId = Some (objectId out) \<rparr>"

definition followUp_payload :: "LogMeetingDto \<Rightarrow> FollowUpTaskDto \<Rightarrow> string \<Rightarrow> TaskPayload" where
  "followUp_payload logMeetingDto task orgId =
     \<lparr> tp_title = task_title task,
       tp_leadId = l_leadId logMeetingDto,
       tp_status = ''Pending'',
       tp_dueDate = task_dueDate task,
       tp_priority = first_truthy [task_priority task] ''Medium'',
       tp_assignedTo = ''system'',
       tp_description = task_description task,
       tp_organizationId = orgId,
       tp_createdBy = ''system'' \<rparr>"

text \<open>
  The end of \<^verbatim>\<open>logMeeting\<close>: the record is patched with whichever of the two ids were
  obtained, and the response is built.
\<close>

definition logMeeting_finish ::
  "outside \<Rightarrow> world \<Rightarrow> string option \<Rightarrow> string option
     \<Rightarrow> (exn + LogMeetingResponse) \<times> world" where
  "logMeeting_finish out w newActivityId newTaskId =
     (let w1 =
        (if truthy newActivityId \<or> truthy newTaskId then
           (stored w ''LoggedMeeting'' ''findByIdAndUpdate'')
             \<lparr>loggedMeetings :=
                update_first (\<lambda>m. meeting_id m = objectId out)
                  (\<lambda>m. m\<lparr> activityId := patched_opt newActivityId (activityId m),
                          taskId := patched_opt newTaskId (taskId m) \<rparr>)
                  (loggedMeetings w)\<rparr>
         else w)
      in (Inr \<lparr> log_success = True, log_meetingId = objectId out,
                log_activityId = newActivityId, log_taskId = newTaskId,
                log_message = ''Meeting logged successfully'' \<rparr>, w1))"

text \<open>
  \<^verbatim>\<open>CalenderSyncController.logMeeting\<close>. Everything sits in one \<^verbatim>\<open>try\<close> whose \<^verbatim>\<open>catch\<close>
  turns any exception into a \<^verbatim>\<open>BadRequestException\<close>. The activity call has a
  \<^verbatim>\<open>catch\<close> of its own; the task call has none.
\<close>

definition logMeeting ::
  "runtime \<Rightarrow> outside \<Rightarrow> world \<Rightarrow> LogMeetingDto \<Rightarrow> string option
     \<Rightarrow> (exn + LogMeetingResponse) \<times> world" where
  "logMeeting rt out w logMeetingDto orgId =
     (case logMeeting_validate logMeetingDto orgId of
        Inl error \<Rightarrow> (Inl (logMeeting_catch error), w)
      | Inr _ \<Rightarrow>
          (let loggedMeeting = logged_document rt out logMeetingDto (the orgId);
               w1 = (stored w ''LoggedMeeting'' ''save'')
                      \<lparr>loggedMeetings := loggedMeetings w @ [loggedMeeting]\<rparr>;
               activityPayload = logged_activity out logMeetingDto;
               w2 = w1\<lparr>activityCalls := activityCalls w1 @ [activityPayload]\<rparr>;
               newActivityId = (case activity_reply out activityPayload of
                                  Inl activityError \<Rightarrow> None
                                | Inr i \<Rightarrow> i)
           in case (l_createFollowUpTask logMeetingDto, l_followUpTask logMeetingDto) of
                (Some True, Some task) \<Rightarrow>
                  (let taskPayload = followUp_payload logMeetingDto task (the orgId);
                       w3 = w2\<lparr>taskCalls := taskCalls w2 @ [taskPayload]\<rparr>
                   in case task_reply out taskPayload of
                        Inl error \<Rightarrow> (Inl (logMeeting_catch error), w3)
                      | Inr newTaskId \<Rightarrow> logMeeting_finish out w3 newActivityId newTaskId)
              | _ \<Rightarrow> logMeeting_finish out w2 newActivityId None))"

section \<open>Sample inputs\<close>

text \<open>
  A runtime that knows seven instants of January 2030, an outside world whose collaborators
  all answer, one whose providers all fail, and the empty world. The theorems below are
  instantiated at them.
\<close>

definition sample_instants :: "(string \<times> int) list" where
  "sample_instants =
     [(''2030-01-01T09:00:00.000Z'', 1893488400000),
      (''2030-01-01T10:00:00.000Z'', 1893492000000),
      (''2030-01-01T11:00:00.000Z'', 1893495600000),
      (''2030-01-01T12:00:00.000Z'', 1893499200000),
      (''2030-01-01T13:00:00.000Z'', 1893502800000),
      (''2030-01-02T10:00:30.000Z'', 1893578430000),
      (''2030-01-03T12:00:00.000Z'', 1893672000000)]"

definition sample_runtime :: runtime where
  "sample_runtime =
     \<lparr> parseISO = map_of sample_instants,
       Date_parse = map_of sample_instants,
       toISOString = (\<lambda>t. case map_of (map prod.swap sample_instants) t of
                              None \<Rightarrow> [] | Some text \<Rightarrow> text) \<rparr>"

definition sample_google_event :: GoogleCalendarEvent where
  "sample_google_event =
     \<lparr> ge_id = ''evt-1'', ge_summary = ''Review'', ge_description = None,
       ge_start = \<lparr> g_dateTime = Some ''2030-01-01T10:00:00.000Z'', g_date = None,
                    g_timeZone = Some ''UTC'' \<rparr>,
       ge_end = \<lparr> g_dateTime = Some ''2030-01-01T11:00:00.000Z'', g_date = None,
                  g_timeZone = Some ''UTC'' \<rparr>,
       ge_location = None, ge_attendees = None,
       ge_organizer = Some \<lparr> go_email = Some ''ann@example.com'', go_displayName = Some ''Ann'',
                              go_name = None \<rparr>,
       ge_hangoutLink = None, ge_conferenceData = None \<rparr>"

definition sample_graph_event :: GraphEvent where
  "sample_graph_event =
     \<lparr> me_id = ''evt-1'', me_subject = ''Review'', me_body_content = None,
       me_start = \<lparr> m_dateTime = ''2030-01-01T10:00:00.000Z'', m_timeZone = Some ''UTC'' \<rparr>,
       me_end = \<lparr> m_dateTime = ''2030-01-01T11:00:00.000Z'', m_timeZone = Some ''UTC'' \<rparr>,
       me_location_displayName = None, me_attendees = None,
       me_organizer = Some \<lparr> mo_address = Some ''ann@example.com'', mo_name = Some ''Ann'' \<rparr>,
       me_isAllDay = None, me_isOnlineMeeting = None, me_onlineMeetingProvider = None,
       me_joinUrl = None \<rparr>"

text \<open>
  The cast of the sample outside worlds: a string of 24 hexadecimal digits denotes the id
  with that text in lower case, and no other string denotes one.
\<close>

definition hex_objectId :: "string \<Rightarrow> string option" where
  "hex_objectId v =
     (if length v = 24 \<and> list_all (\<lambda>c. c \<in> set ''0123456789abcdefABCDEF'') v
      then Some (toLowerCase v) else None)"

definition answering_outside :: outside where
  "answering_outside =
     \<lparr> google_event_reply = (\<lambda>n call. Inr (Some sample_google_event)),
       google_profile_reply = (\<lambda>n call. Inl (BadRequestException ''no profile'')),
       graph_plain_reply = (\<lambda>n call. Inr ()),
       graph_event_reply = (\<lambda>n call. Inr sample_graph_event),
       activity_reply = (\<lambda>payload. Inr None),
       task_reply = (\<lambda>payload. Inr None),
       objectId = ''65a1b2c3d4e5f60718293a4b'',
       requestId = ''r1'',
       castObjectId = hex_objectId \<rparr>"

definition failing_outside :: outside where
  "failing_outside =
     \<lparr> google_event_reply = (\<lambda>n call. Inl (BadRequestException ''Google Calendar API error: down'')),
       google_profile_reply = (\<lambda>n call. Inl (BadRequestException ''no profile'')),
       graph_plain_reply = (\<lambda>n call. Inl (JsError ''Could not connect to Microsoft Graph API'')),
       graph_event_reply = (\<lambda>n call. Inl (JsError ''Could not connect to Microsoft Graph API'')),
       activity_reply = (\<lambda>payload. Inr None),
       task_reply = (\<lambda>payload. Inr None),
       objectId = ''65a1b2c3d4e5f60718293a4b'',
       requestId = ''r1'',
       castObjectId = hex_objectId \<rparr>"

definition empty_world :: world where
  "empty_world =
     \<lparr> calendarEvents = [], loggedMeetings = [], transport = [], storeCalls = [],
       activityCalls = [], taskCalls = [] \<rparr>"

definition sample_create :: CreateEventDto where
  "sample_create =
     \<lparr> c_title = ''Review'', c_leadId = ''lead-1'', c_description = None,
       c_startTime = ''2030-01-01T10:00:00.000Z'', c_endTime = ''2030-01-01T11:00:00.000Z'',
       c_timeZone = None, c_isAllDay = None, c_locationType = GOOGLE_MEET,
       c_locationDetails = None, c_attendees = [], c_organizer = ''ann@example.com'',
       c_outcome = None \<rparr>"

definition no_update :: UpdateEventDto where
  "no_update =
     \<lparr> u_title = None, u_leadId = None, u_description = None, u_startTime = None,
       u_endTime = None, u_timeZone = None, u_isAllDay = None, u_locationType = None,
       u_locationDetails = None, u_attendees = None, u_organizer = None,
       u_organizerName = None, u_outcome = None \<rparr>"

definition sample_stored_event :: CalendarEvent where
  "sample_stored_event =
     \<lparr> externalId = ''evt-1'', provider = ''google'', userId = Some ''ann@example.com'',
       leadId = Some ''lead-1'', title = ''Review'', description = None,
       startTime = Some 1893492000000, endTime = Some 1893495600000,
       timeZone = Some ''UTC'', isAllDay = False, locationType = GOOGLE_MEET,
       locationDetails = None, attendees = [], organizer = Some ''ann@example.com'',
       organizerName = Some ''Ann'', meetingLink = None, isOnlineMeeting = False,
       onlineMeetingProvider = None, isActive = True, outcome = None \<rparr>"

definition sample_world :: world where
  "sample_world = empty_world\<lparr>calendarEvents := [sample_stored_event]\<rparr>"

text \<open>
  A world whose one calendar event has an external id of 24 hexadecimal digits, beside the
  logged meeting, whose \<^verbatim>\<open>_id\<close> is another.
\<close>

definition hex_stored_event :: CalendarEvent where
  "hex_stored_event = sample_stored_event\<lparr>externalId := ''65a1b2c3d4e5f60718293a4c''\<rparr>"

definition sample_log :: LogMeetingDto where
  "sample_log =
     \<lparr> l_leadId = ''lead-1'', l_title = ''Call'', l_meetingType = VIRTUAL,
       l_virtualMeetingProvider = Some VIA_ZOOM,
       l_meetingDateTime = ''2030-01-01T10:00:00.000Z'', l_participants = [],
       l_summary = ''Went well'', l_outcome = COMPLETED, l_createFollowUpTask = Some False,
       l_followUpTask = None, l_attachment = None, l_duration = None, l_location = None \<rparr>"

definition reversed_create :: CreateEventDto where
  "reversed_create =
     sample_create\<lparr> c_startTime := ''2030-01-01T11:00:00.000Z'',
                      c_endTime := ''2030-01-01T10:00:00.000Z'' \<rparr>"




definition start_only_update :: UpdateEventDto where
  "start_only_update = no_update\<lparr>u_startTime := Some ''2030-01-01T12:00:00.000Z''\<rparr>"


text \<open>The time value the comparator reads off a feed item.\<close>

definition feed_time :: "runtime \<Rightarrow> FeedItem \<Rightarrow> int option" where
  "feed_time rt x = Date_parse rt (feed_startTime x)"

definition sample_logged_meeting :: LoggedMeeting where
  "sample_logged_meeting =
     \<lparr> meeting_id = ''65a1b2c3d4e5f60718293a4b'', meeting_title = ''Call'', meetingType = PHONE,
       virtualMeetingProvider = None, meetingDateTime = Some 1893499200000,
       meeting_duration = None, meeting_summary = ''Went well'', meeting_outcome = COMPLETED,
       participants = [], meeting_location = None, meeting_leadId = ''lead-1'',
       loggedBy = ''system'', organizationId = ''org-1'', activityId = None, taskId = None,
       attachment = None, meeting_isActive = True \<rparr>"

text \<open>
  A world for the feed: \<open>evt-1\<close> at 10:00, \<open>evt-2\<close> at 12:00 and a logged meeting at 12:00.
\<close>

definition feed_world :: world where
  "feed_world =
     empty_world
       \<lparr> calendarEvents :=
           [sample_stored_event,
            sample_stored_event\<lparr> externalId := ''evt-2'', startTime := Some 1893499200000,
                                  endTime := Some 1893502800000 \<rparr>],
         loggedMeetings := [sample_logged_meeting] \<rparr>"

definition hex_world :: world where
  "hex_world =
     empty_world
       \<lparr> calendarEvents := [hex_stored_event], loggedMeetings := [sample_logged_meeting] \<rparr>"




definition graph_contact :: "string \<Rightarrow> string list \<Rightarrow> GraphContact" where
  "graph_contact i es =
     \<lparr> graph_id = i, displayName = Some ''Ann'',
       emailAddresses = map (\<lambda>e. \<lparr> address = e, address_name = None, address_type = None \<rparr>) es,
       mobilePhone = None, contact_source = ''contacts'' \<rparr>"

section \<open>Properties\<close>

lemma toLowerCase_google: "toLowerCase ''Google'' = ''google''"
  by (simp add: toLowerCase_def lower_char_def upper_letters_def lower_letters_def)

text \<open>The capital E with acute accent, U+00C9, is lower-cased to U+00E9.\<close>

lemma toLowerCase_e_acute: "toLowerCase (CHR 0xC9 # ''va'') = CHR 0xE9 # ''va''"
  by (simp add: toLowerCase_def lower_char_def upper_letters_def lower_letters_def)

text \<open>
  C5, evaluated at a header that is not a Bearer credential: \<open>Basic abc\<close> contains no
  \<open>Bearer \<close> prefix, the replacement leaves it whole, the non-empty test passes and the
  whole header value is returned as the access token.
\<close>

theorem validateHeaders_accepts_non_bearer:
  "validateHeaders (Some ''Basic abc'') (Some ''google'')
     = Inr \<lparr>accessToken = ''Basic abc'', validatedProvider = GOOGLE\<rparr>"
  by (simp add: validateHeaders_def provider_of_tag_def CalendarProvider_values_def
      toLowerCase_def lower_char_def upper_letters_def lower_letters_def)

subsection \<open>Time validation of the two adapters\<close>

lemma graph_validate_past:
  "parseISO rt s = Some ts \<Longrightarrow> parseISO rt e = Some te \<Longrightarrow> ts < now \<Longrightarrow>
   graph_validateTimeLogic rt now s e
     = Inl (BadRequestException ''Start time cannot be in the past'')"
  by (simp add: graph_validateTimeLogic_def)

lemma whole_minutes_of_a_day: "0 \<le> d \<Longrightarrow> d \<le> 86400000 \<Longrightarrow> trunc_div d 60000 \<le> 1440"
  by (simp add: trunc_div_def)

lemma google_validate_ok:
  "parseISO rt s = Some ts \<Longrightarrow> parseISO rt e = Some te \<Longrightarrow> ts < te
   \<Longrightarrow> te - ts \<le> 86400000 \<Longrightarrow> google_validateTimeLogic rt s e = Inr ()"
  using whole_minutes_of_a_day[of "te - ts"] by (simp add: google_validateTimeLogic_def)

lemma length_transport_access:
  "length (transport (snd (validateCalendarAccess out w token))) = Suc (length (transport w))"
  by (simp add: validateCalendarAccess_def request_def Let_def)

lemma graph_createEvent_past:
  assumes "parseISO rt (c_startTime dto) = Some ts" "parseISO rt (c_endTime dto) = Some te"
    and "ts < now" and "fst (validateCalendarAccess out w token) = Inr ()"
  shows "fst (graph_createEvent rt out now w token dto) =
     Inl (BadRequestException
       ''Failed to create calendar event: Start time cannot be in the past'')"
proof -
  obtain w1 where a: "validateCalendarAccess out w token = (Inr (), w1)"
    using assms(4) by (cases "validateCalendarAccess out w token") auto
  show ?thesis
    by (simp add: graph_createEvent_def a graph_validate_past[OF assms(1,2,3)]
        graph_create_catch_def)
qed

lemma graph_updateEvent_past:
  assumes "u_startTime dto = Some s" "u_endTime dto = Some e" "s \<noteq> []" "e \<noteq> []"
    and "parseISO rt s = Some ts" "parseISO rt e = Some te" "ts < now"
    and "fst (validateCalendarAccess out w token) = Inr ()"
    and "graph_event_reply out (Suc (length (transport w)))
           (graph_event_call ''GET'' token eventId NoBody) = Inr existing"
  shows "fst (graph_updateEvent rt out now w token eventId dto) =
     Inl (BadRequestException
       ''Failed to update calendar event: Start time cannot be in the past'')"
proof -
  obtain w1 where a: "validateCalendarAccess out w token = (Inr (), w1)"
    using assms(8) by (cases "validateCalendarAccess out w token") auto
  with length_transport_access[of out w token]
  have len: "length (transport w1) = Suc (length (transport w))" by simp
  show ?thesis
    by (simp add: graph_updateEvent_def a len assms(1,2,3,4,9)
        graph_validate_past[OF assms(5,6,7)] update_catch_def Let_def)
qed

text \<open>
  C10, as stated, at a request whose start, 10:00, lies before the clock, 12:00, and whose
  end is not a date: the Microsoft time validation tests the format of both times before it
  reads the clock, and the request is rejected with ``Invalid date format. Please use ISO
  8601 format.'' and not with ``Start time cannot be in the past''; so is it by
  \<^verbatim>\<open>createEvent\<close>.
\<close>

theorem past_start_with_unreadable_end_counterexample:
  "parseISO sample_runtime ''2030-01-01T10:00:00.000Z'' = Some 1893492000000
   \<and> (1893492000000 :: int) < 1893499200000
   \<and> parseISO sample_runtime ''tomorrow'' = None
   \<and> graph_validateTimeLogic sample_runtime 1893499200000
        ''2030-01-01T10:00:00.000Z'' ''tomorrow''
       = Inl (BadRequestException ''Invalid date format. Please use ISO 8601 format.'')
   \<and> fst (graph_createEvent sample_runtime answering_outside 1893499200000 empty_world
            ''token'' (sample_create\<lparr>c_endTime := ''tomorrow''\<rparr>))
       = Inl (BadRequestException (''Failed to create calendar event: ''
            @ ''Invalid date format. Please use ISO 8601 format.''))"
  by (simp add: graph_createEvent_def graph_validateTimeLogic_def validateCalendarAccess_def
      graph_create_catch_def answering_outside_def sample_create_def sample_runtime_def
      sample_instants_def Let_def)

text \<open>
  C10, amended. A request whose start and end both parse and whose start lies before the
  clock is rejected by the Microsoft time validation with the bad-request error ``Start time
  cannot be in the past''. \<^verbatim>\<open>createEvent\<close> reaches that validation once the calendar access
  check has passed, and \<^verbatim>\<open>updateEvent\<close> when moreover both times are supplied and the
  existing event has been fetched; each reports the error under its own prefix. The Google
  time validation does not read the clock: it accepts the same request whenever the end is
  after the start by at most 24 hours. So the two adapters accept different inputs.
\<close>

theorem past_start_rejected_by_microsoft_only:
  assumes "parseISO rt s = Some ts" and "parseISO rt e = Some te" and "ts < now"
  shows "graph_validateTimeLogic rt now s e
           = Inl (BadRequestException ''Start time cannot be in the past'')
     \<and> (c_startTime cdto = s \<and> c_endTime cdto = e
          \<and> fst (validateCalendarAccess out w token) = Inr ()
        \<longrightarrow> fst (graph_createEvent rt out now w token cdto) =
              Inl (BadRequestException
                ''Failed to create calendar event: Start time cannot be in the past''))
     \<and> (u_startTime udto = Some s \<and> u_endTime udto = Some e \<and> s \<noteq> [] \<and> e \<noteq> []
          \<and> fst (validateCalendarAccess out w token) = Inr ()
          \<and> graph_event_reply out (Suc (length (transport w)))
                (graph_event_call ''GET'' token eventId NoBody) = Inr existing
        \<longrightarrow> fst (graph_updateEvent rt out now w token eventId udto) =
              Inl (BadRequestException
                ''Failed to update calendar event: Start time cannot be in the past''))
     \<and> (ts < te \<and> te - ts \<le> 86400000 \<longrightarrow> google_validateTimeLogic rt s e = Inr ())"
proof (intro conjI impI)
  show "graph_validateTimeLogic rt now s e
          = Inl (BadRequestException ''Start time cannot be in the past'')"
    by (rule graph_validate_past[OF assms])
next
  assume "c_startTime cdto = s \<and> c_endTime cdto = e
            \<and> fst (validateCalendarAccess out w token) = Inr ()"
  then show "fst (graph_createEvent rt out now w token cdto) =
     Inl (BadRequestException
       ''Failed to create calendar event: Start time cannot be in the past'')"
    using assms by (intro graph_createEvent_past[of rt cdto ts te]) auto
next
  assume "u_startTime udto = Some s \<and> u_endTime udto = Some e \<and> s \<noteq> [] \<and> e \<noteq> []
          \<and> fst (validateCalendarAccess out w token) = Inr ()
          \<and> graph_event_reply out (Suc (length (transport w)))
                (graph_event_call ''GET'' token eventId NoBody) = Inr existing"
  then show "fst (graph_updateEvent rt out now w token eventId udto) =
     Inl (BadRequestException
       ''Failed to update calendar event: Start time cannot be in the past'')"
    using assms by (intro graph_updateEvent_past[of udto s e rt ts te now out w token eventId existing]) auto
next
  assume "ts < te \<and> te - ts \<le> 86400000"
  then show "google_validateTimeLogic rt s e = Inr ()"
    using assms google_validate_ok[of rt s ts e te] by simp
qed

theorem past_start_rejected_by_microsoft_only_witness:
  "parseISO sample_runtime ''2030-01-01T10:00:00.000Z'' = Some 1893492000000
   \<and> parseISO sample_runtime ''2030-01-01T11:00:00.000Z'' = Some 1893495600000
   \<and> (1893492000000 :: int) < 1893499200000
   \<and> graph_validateTimeLogic sample_runtime 1893499200000
        ''2030-01-01T10:00:00.000Z'' ''2030-01-01T11:00:00.000Z''
        = Inl (BadRequestException ''Start time cannot be in the past'')
   \<and> fst (graph_createEvent sample_runtime answering_outside 1893499200000 empty_world
            ''token'' sample_create)
        = Inl (BadRequestException
            ''Failed to create calendar event: Start time cannot be in the past'')
   \<and> google_validateTimeLogic sample_runtime
        ''2030-01-01T10:00:00.000Z'' ''2030-01-01T11:00:00.000Z'' = Inr ()"
proof -
  have s: "parseISO sample_runtime ''2030-01-01T10:00:00.000Z'' = Some 1893492000000"
    by (simp add: sample_runtime_def sample_instants_def)
  have e: "parseISO sample_runtime ''2030-01-01T11:00:00.000Z'' = Some 1893495600000"
    by (simp add: sample_runtime_def sample_instants_def)
  have past: "(1893492000000 :: int) < 1893499200000" by simp
  have access: "fst (validateCalendarAccess answering_outside empty_world ''token'') = Inr ()"
    by (simp add: validateCalendarAccess_def answering_outside_def)
  have dto: "c_startTime sample_create = ''2030-01-01T10:00:00.000Z''
      \<and> c_endTime sample_create = ''2030-01-01T11:00:00.000Z''"
    by (simp add: sample_create_def)
  from past_start_rejected_by_microsoft_only[OF s e past, of sample_create answering_outside
      empty_world "''token''"]
  show ?thesis using s e access dto by simp
qed

subsection \<open>Logging a meeting: validation comes first\<close>

lemma logMeeting_saves_when_valid:
  "logMeeting_validate dto orgId = Inr () \<Longrightarrow>
   StoreCall ''LoggedMeeting'' ''save'' \<in> set (storeCalls (snd (logMeeting rt out w dto orgId)))"
  by (auto simp: logMeeting_def logMeeting_finish_def stored_def Let_def
      split: option.splits bool.splits sum.splits)

text \<open>
  C6. When the organization id is empty, or the meeting kind is virtual and no virtual
  provider is given, or a follow-up task is requested without its details, \<^verbatim>\<open>logMeeting\<close>
  ends with a bad-request error and leaves the world as it found it: no call to the store
  (so no record created or saved), to the activity logger or to the task creator is made.
\<close>

theorem logMeeting_rejects_before_persisting:
  assumes "\<not> truthy orgId
     \<or> (l_meetingType dto = VIRTUAL \<and> l_virtualMeetingProvider dto = None)
     \<or> (l_createFollowUpTask dto = Some True \<and> l_followUpTask dto = None)"
  shows "\<exists>m. logMeeting rt out w dto orgId = (Inl (BadRequestException m), w)"
proof -
  have "\<exists>m. logMeeting_validate dto orgId = Inl (BadRequestException m)"
    using assms by (auto simp: logMeeting_validate_def)
  then show ?thesis by (auto simp: logMeeting_def logMeeting_catch_def)
qed

theorem logMeeting_rejects_before_persisting_witness:
  "\<not> truthy (Some [])
   \<and> fst (logMeeting sample_runtime answering_outside empty_world sample_log (Some []))
       = Inl (BadRequestException ''Failed to log meeting: X-Organization-ID header is required'')
   \<and> storeCalls (snd (logMeeting sample_runtime answering_outside empty_world sample_log
        (Some []))) = []
   \<and> loggedMeetings (snd (logMeeting sample_runtime answering_outside empty_world sample_log
        (Some []))) = []"
proof -
  have h: "\<not> truthy (Some [])" by simp
  from logMeeting_rejects_before_persisting[of "Some []" sample_log sample_runtime
      answering_outside empty_world]
  obtain m where m: "logMeeting sample_runtime answering_outside empty_world sample_log (Some [])
      = (Inl (BadRequestException m), empty_world)"
    using h by blast
  have "fst (logMeeting sample_runtime answering_outside empty_world sample_log (Some []))
       = Inl (BadRequestException ''Failed to log meeting: X-Organization-ID header is required'')"
    by (simp add: logMeeting_def logMeeting_validate_def logMeeting_catch_def)
  then show ?thesis using m by (simp add: empty_world_def)
qed

subsection \<open>Deleting: soft in the adapters, hard in the gateway's local branch\<close>

lemma apply_patch_inactive:
  "apply_patch (no_patch\<lparr>set_isActive := Some False\<rparr>) e = e\<lparr>isActive := False\<rparr>"
  by (simp add: apply_patch_def no_patch_def patched_def patched_opt_def)

lemma length_update_first: "length (update_first P f xs) = length xs"
  by (induction xs) auto

lemma find_update_first:
  "(\<And>x. P (f x) = P x) \<Longrightarrow> find P (update_first P f xs) = map_option f (find P xs)"
  by (induction xs) auto

lemma calendarEvents_soft_delete_local:
  "calendarEvents (soft_delete_local p w eventId) =
     update_first (\<lambda>e. externalId e = eventId) (\<lambda>e. e\<lparr>isActive := False\<rparr>) (calendarEvents w)"
proof -
  have "apply_patch (no_patch\<lparr>set_isActive := Some False\<rparr>) = (\<lambda>e. e\<lparr>isActive := False\<rparr>)"
    by (rule ext) (rule apply_patch_inactive)
  then show ?thesis
    by (simp add: soft_delete_local_def findOneAndUpdate_def findOne_def stored_def
        logActivity_best_effort_def Let_def split: option.splits)
qed

lemma transport_soft_delete_local:
  "transport (soft_delete_local p w eventId) = transport w"
  by (simp add: soft_delete_local_def findOneAndUpdate_def findOne_def stored_def
      logActivity_best_effort_def Let_def split: option.splits)

lemma google_deleteEvent_attempt:
  "token \<noteq> [] \<Longrightarrow> trim token \<noteq> [] \<Longrightarrow>
   transport (snd (google_deleteEvent out w token eventId)) =
     transport w @ [\<lparr> http_method = ''DELETE'',
                       http_endpoint = ''/calendars/primary/events/'' @ eventId,
                       http_token = token, http_body = NoBody \<rparr>]"
  by (simp add: google_deleteEvent_def transport_soft_delete_local request_def Let_def
      split: sum.splits)

lemma graph_deleteEvent_attempt:
  "token \<noteq> [] \<Longrightarrow> trim token \<noteq> [] \<Longrightarrow>
   transport (snd (graph_deleteEvent out w token eventId)) =
     transport w @ [\<lparr> http_method = ''DELETE'', http_endpoint = ''me/events/'' @ eventId,
                       http_token = token, http_body = NoBody \<rparr>]"
  by (simp add: graph_deleteEvent_def transport_soft_delete_local request_def Let_def
      split: sum.splits)

lemma google_deleteEvent_any_outside:
  "google_deleteEvent out w token eventId = google_deleteEvent out' w token eventId"
  by (simp add: google_deleteEvent_def Let_def split: sum.splits)

lemma graph_deleteEvent_any_outside:
  "graph_deleteEvent out w token eventId = graph_deleteEvent out' w token eventId"
  by (simp add: graph_deleteEvent_def Let_def split: sum.splits)

lemma google_deleteEvent_mirror:
  "fst (google_deleteEvent out w token eventId)
     = Inr \<lparr> del_success = True, del_message = ''Event deleted successfully'',
             del_eventId = eventId, del_statusCode = 200 \<rparr>
   \<and> calendarEvents (snd (google_deleteEvent out w token eventId)) =
       update_first (\<lambda>e. externalId e = eventId) (\<lambda>e. e\<lparr>isActive := False\<rparr>) (calendarEvents w)"
  by (simp add: google_deleteEvent_def calendarEvents_soft_delete_local request_def Let_def
      deleted_response_def split: sum.splits)

lemma graph_deleteEvent_mirror:
  "fst (graph_deleteEvent out w token eventId)
     = Inr \<lparr> del_success = True, del_message = ''Event deleted successfully'',
             del_eventId = eventId, del_statusCode = 200 \<rparr>
   \<and> calendarEvents (snd (graph_deleteEvent out w token eventId)) =
       update_first (\<lambda>e. externalId e = eventId) (\<lambda>e. e\<lparr>isActive := False\<rparr>) (calendarEvents w)"
  by (simp add: graph_deleteEvent_def calendarEvents_soft_delete_local request_def Let_def
      deleted_response_def split: sum.splits)

lemma soft_deleted_record:
  assumes "find (\<lambda>e. externalId e = eventId) xs = Some ev"
  shows "find (\<lambda>e. externalId e = eventId)
           (update_first (\<lambda>e. externalId e = eventId) (\<lambda>e. e\<lparr>isActive := False\<rparr>) xs)
         = Some (ev\<lparr>isActive := False\<rparr>)"
  using assms by (simp add: find_update_first)

lemma update_first_others:
  assumes "\<And>x. P (f x) = P x"
  shows "filter (\<lambda>e. \<not> P e) (update_first P f xs) = filter (\<lambda>e. \<not> P e) xs"
  using assms by (induction xs) auto

text \<open>
  C7. With a usable token (non-empty after trimming), when the provider's answer to the
  DELETE request is an exception, \<^verbatim>\<open>deleteEvent\<close> of either adapter has made that one
  request and still returns the success response: \<^verbatim>\<open>success\<close> is true, the event id is the
  one asked for, the message is ``Event deleted successfully'' and the status code 200. The
  mirror keeps every record; the first record with that external id, when there is one, has
  its active flag cleared, and the records with another external id are as they were. The
  outcome (response and world) is the one obtained with any other behaviour of the
  collaborators, a provider that answers the DELETE included.
\<close>

theorem provider_failure_on_delete_is_not_fatal:
  assumes "token \<noteq> []" and "trim token \<noteq> []"
  shows "(google_event_reply out (length (transport w))
            \<lparr> http_method = ''DELETE'', http_endpoint = ''/calendars/primary/events/'' @ eventId,
              http_token = token, http_body = NoBody \<rparr> = Inl failure
          \<longrightarrow> transport (snd (google_deleteEvent out w token eventId)) =
                transport w @ [\<lparr> http_method = ''DELETE'',
                  http_endpoint = ''/calendars/primary/events/'' @ eventId,
                  http_token = token, http_body = NoBody \<rparr>]
            \<and> fst (google_deleteEvent out w token eventId)
                = Inr \<lparr> del_success = True, del_message = ''Event deleted successfully'',
                        del_eventId = eventId, del_statusCode = 200 \<rparr>
            \<and> length (calendarEvents (snd (google_deleteEvent out w token eventId)))
                = length (calendarEvents w)
            \<and> (find (\<lambda>e. externalId e = eventId) (calendarEvents w) = Some ev
                \<longrightarrow> find (\<lambda>e. externalId e = eventId)
                      (calendarEvents (snd (google_deleteEvent out w token eventId)))
                    = Some (ev\<lparr>isActive := False\<rparr>))
            \<and> filter (\<lambda>e. externalId e \<noteq> eventId)
                  (calendarEvents (snd (google_deleteEvent out w token eventId)))
                = filter (\<lambda>e. externalId e \<noteq> eventId) (calendarEvents w)
            \<and> google_deleteEvent out w token eventId = google_deleteEvent out' w token eventId)
       \<and> (graph_plain_reply out (length (transport w))
            \<lparr> http_method = ''DELETE'', http_endpoint = ''me/events/'' @ eventId,
              http_token = token, http_body = NoBody \<rparr> = Inl failure
          \<longrightarrow> transport (snd (graph_deleteEvent out w token eventId)) =
                transport w @ [\<lparr> http_method = ''DELETE'',
                  http_endpoint = ''me/events/'' @ eventId,
                  http_token = token, http_body = NoBody \<rparr>]
            \<and> fst (graph_deleteEvent out w token eventId)
                = Inr \<lparr> del_success = True, del_message = ''Event deleted successfully'',
                        del_eventId = eventId, del_statusCode = 200 \<rparr>
            \<and> length (calendarEvents (snd (graph_deleteEvent out w token eventId)))
                = length (calendarEvents w)
            \<and> (find (\<lambda>e. externalId e = eventId) (calendarEvents w) = Some ev
                \<longrightarrow> find (\<lambda>e. externalId e = eventId)
                      (calendarEvents (snd (graph_deleteEvent out w token eventId)))
                    = Some (ev\<lparr>isActive := False\<rparr>))
            \<and> filter (\<lambda>e. externalId e \<noteq> eventId)
                  (calendarEvents (snd (graph_deleteEvent out w token eventId)))
                = filter (\<lambda>e. externalId e \<noteq> eventId) (calendarEvents w)
            \<and> graph_deleteEvent out w token eventId = graph_deleteEvent out' w token eventId)"
proof -
  have others: "filter (\<lambda>e. externalId e \<noteq> eventId)
        (update_first (\<lambda>e. externalId e = eventId) (\<lambda>e. e\<lparr>isActive := False\<rparr>) xs)
      = filter (\<lambda>e. externalId e \<noteq> eventId) xs" for xs :: "CalendarEvent list"
    using update_first_others[of "\<lambda>e. externalId e = eventId" "\<lambda>e. e\<lparr>isActive := False\<rparr>" xs]
    by simp
  show ?thesis
    using google_deleteEvent_mirror[of out w token eventId]
      graph_deleteEvent_mirror[of out w token eventId]
      google_deleteEvent_any_outside[of out w token eventId out']
      graph_deleteEvent_any_outside[of out w token eventId out']
      google_deleteEvent_attempt[OF assms, of out w eventId]
      graph_deleteEvent_attempt[OF assms, of out w eventId]
    by (auto simp: length_update_first soft_deleted_record others)
qed

theorem provider_failure_on_delete_is_not_fatal_witness:
  "''token'' \<noteq> [] \<and> trim ''token'' \<noteq> []
   \<and> google_event_reply failing_outside (length (transport sample_world))
        \<lparr> http_method = ''DELETE'', http_endpoint = ''/calendars/primary/events/'' @ ''evt-1'',
          http_token = ''token'', http_body = NoBody \<rparr>
       = Inl (BadRequestException ''Google Calendar API error: down'')
   \<and> find (\<lambda>e. externalId e = ''evt-1'') (calendarEvents sample_world)
       = Some sample_stored_event
   \<and> fst (google_deleteEvent failing_outside sample_world ''token'' ''evt-1'')
       = Inr \<lparr> del_success = True, del_message = ''Event deleted successfully'',
               del_eventId = ''evt-1'', del_statusCode = 200 \<rparr>
   \<and> find (\<lambda>e. externalId e = ''evt-1'')
        (calendarEvents (snd (google_deleteEvent failing_outside sample_world ''token'' ''evt-1'')))
       = Some (sample_stored_event\<lparr>isActive := False\<rparr>)
   \<and> google_deleteEvent failing_outside sample_world ''token'' ''evt-1''
       = google_deleteEvent answering_outside sample_world ''token'' ''evt-1''"
proof -
  have t: "''token'' \<noteq> []" "trim ''token'' \<noteq> []"
    by (simp_all add: trim_def is_space_def)
  have r: "google_event_reply failing_outside (length (transport sample_world))
        \<lparr> http_method = ''DELETE'', http_endpoint = ''/calendars/primary/events/'' @ ''evt-1'',
          http_token = ''token'', http_body = NoBody \<rparr>
       = Inl (BadRequestException ''Google Calendar API error: down'')"
    by (simp add: failing_outside_def)
  have f: "find (\<lambda>e. externalId e = ''evt-1'') (calendarEvents sample_world)
       = Some sample_stored_event"
    by (simp add: sample_world_def sample_stored_event_def)
  from provider_failure_on_delete_is_not_fatal[OF t, of failing_outside sample_world
      "''evt-1''" "BadRequestException ''Google Calendar API error: down''"
      sample_stored_event answering_outside]
  show ?thesis using t r f by blast
qed

lemma trim_no_break_space: "trim [CHR 0xA0] = []"
  by (simp add: trim_def is_space_def)

lemma length_delete_first:
  "find P xs = Some x \<Longrightarrow> Suc (length (delete_first P xs)) = length xs"
  by (induction xs) (auto split: if_splits)

lemma find_holds: "find P xs = Some x \<Longrightarrow> P x"
  by (induction xs) (auto split: if_splits)

lemma delete_first_remove1:
  "delete_first P xs = (case find P xs of None \<Rightarrow> xs | Some x \<Rightarrow> remove1 x xs)"
  by (induction xs) (auto split: option.splits dest: find_holds)

lemma controller_deleteEvent_local:
  assumes "\<not> truthy authHeader \<or> \<not> truthy providerHeader"
  shows "calendarEvents (snd (controller_deleteEvent out w eventId authHeader providerHeader))
           = delete_first (\<lambda>e. externalId e = eventId) (calendarEvents w)"
    and "transport (snd (controller_deleteEvent out w eventId authHeader providerHeader))
           = transport w"
  using assms
  by (auto simp: controller_deleteEvent_def count_first_def stored_def Let_def
      split: option.splits)

lemma controller_deleteEvent_local_cast:
  assumes "\<not> truthy authHeader \<or> \<not> truthy providerHeader"
    and "find (\<lambda>e. externalId e = eventId) (calendarEvents w) = Some ev"
    and "castObjectId out eventId = Some oid"
  shows "fst (controller_deleteEvent out w eventId authHeader providerHeader)
           = Inr \<lparr> del_success = True, del_message = ''Event deleted from local database'',
                   del_eventId = eventId, del_statusCode = 200 \<rparr>"
    and "loggedMeetings (snd (controller_deleteEvent out w eventId authHeader providerHeader))
           = delete_first (\<lambda>m. meeting_id m = oid) (loggedMeetings w)"
  using assms
  by (auto simp: controller_deleteEvent_def count_first_def stored_def Let_def
      deleted_response_def)

text \<open>
  An event id that denotes no \<^verbatim>\<open>ObjectId\<close>: the calendar record is removed, and the
  request then fails with the \<^verbatim>\<open>CastError\<close> of the second \<^verbatim>\<open>deleteOne\<close>.
\<close>

lemma controller_deleteEvent_local_cast_error:
  assumes "\<not> truthy authHeader \<or> \<not> truthy providerHeader"
    and "castObjectId out eventId = None"
  shows "fst (controller_deleteEvent out w eventId authHeader providerHeader)
           = Inl (cast_error eventId)"
    and "loggedMeetings (snd (controller_deleteEvent out w eventId authHeader providerHeader))
           = loggedMeetings w"
  using assms
  by (auto simp: controller_deleteEvent_def count_first_def stored_def Let_def)

text \<open>
  C3, as stated, at the world that holds the one active event whose external id is
  \<open>65a1b2c3d4e5f60718293a4c\<close>: after a delete request without headers the success response
  is returned and the mirror is empty. The record has not been kept with its active flag
  cleared; it is gone.
\<close>

theorem local_delete_is_hard_counterexample:
  "calendarEvents hex_world = [hex_stored_event]
   \<and> externalId hex_stored_event = ''65a1b2c3d4e5f60718293a4c''
   \<and> isActive hex_stored_event
   \<and> fst (controller_deleteEvent answering_outside hex_world ''65a1b2c3d4e5f60718293a4c''
        None None)
       = Inr \<lparr> del_success = True, del_message = ''Event deleted from local database'',
               del_eventId = ''65a1b2c3d4e5f60718293a4c'', del_statusCode = 200 \<rparr>
   \<and> calendarEvents (snd (controller_deleteEvent answering_outside hex_world
        ''65a1b2c3d4e5f60718293a4c'' None None)) = []"
  by (simp add: controller_deleteEvent_def count_first_def stored_def hex_world_def
      hex_stored_event_def sample_stored_event_def empty_world_def answering_outside_def
      hex_objectId_def deleted_response_def Let_def)

text \<open>
  C3, amended. For a delete request in which a header is missing (both, in particular), when
  the mirror holds a record with the given external id: the first such record is removed
  from the mirror, which then holds one record fewer, all others as they were, and no
  provider request is made. When moreover the event id denotes an \<^verbatim>\<open>ObjectId\<close>, the
  logged meeting with that \<^verbatim>\<open>_id\<close>, if there is one, is removed as well, and the success
  response is returned: \<^verbatim>\<open>success\<close> is true, the event id is the one asked for, the
  message is ``Event deleted from local database'' and the status code 200.
\<close>

theorem local_delete_removes_record:
  assumes "\<not> truthy authHeader \<or> \<not> truthy providerHeader"
    and "find (\<lambda>e. externalId e = eventId) (calendarEvents w) = Some ev"
  shows "calendarEvents (snd (controller_deleteEvent out w eventId authHeader providerHeader))
           = remove1 ev (calendarEvents w)
     \<and> Suc (length (calendarEvents
           (snd (controller_deleteEvent out w eventId authHeader providerHeader))))
           = length (calendarEvents w)
     \<and> transport (snd (controller_deleteEvent out w eventId authHeader providerHeader))
           = transport w
     \<and> (castObjectId out eventId = Some oid \<longrightarrow>
          fst (controller_deleteEvent out w eventId authHeader providerHeader)
            = Inr \<lparr> del_success = True, del_message = ''Event deleted from local database'',
                    del_eventId = eventId, del_statusCode = 200 \<rparr>
          \<and> loggedMeetings (snd (controller_deleteEvent out w eventId authHeader providerHeader))
            = (case find (\<lambda>m. meeting_id m = oid) (loggedMeetings w) of
                 None \<Rightarrow> loggedMeetings w
               | Some meeting \<Rightarrow> remove1 meeting (loggedMeetings w)))"
  using controller_deleteEvent_local[OF assms(1), of out w eventId]
    controller_deleteEvent_local_cast[OF assms, of out oid]
    length_delete_first[OF assms(2)]
    delete_first_remove1[of "\<lambda>e. externalId e = eventId" "calendarEvents w"]
    delete_first_remove1[of "\<lambda>m. meeting_id m = oid" "loggedMeetings w"]
    assms(2)
  by simp

theorem local_delete_removes_record_witness:
  "\<not> truthy None
   \<and> find (\<lambda>e. externalId e = ''65a1b2c3d4e5f60718293a4c'') (calendarEvents hex_world)
       = Some hex_stored_event
   \<and> castObjectId answering_outside ''65a1b2c3d4e5f60718293a4c''
       = Some ''65a1b2c3d4e5f60718293a4c''
   \<and> fst (controller_deleteEvent answering_outside hex_world ''65a1b2c3d4e5f60718293a4c''
        None None)
       = Inr \<lparr> del_success = True, del_message = ''Event deleted from local database'',
               del_eventId = ''65a1b2c3d4e5f60718293a4c'', del_statusCode = 200 \<rparr>
   \<and> calendarEvents (snd (controller_deleteEvent answering_outside hex_world
        ''65a1b2c3d4e5f60718293a4c'' None None)) = remove1 hex_stored_event [hex_stored_event]
   \<and> loggedMeetings (snd (controller_deleteEvent answering_outside hex_world
        ''65a1b2c3d4e5f60718293a4c'' None None)) = [sample_logged_meeting]
   \<and> transport (snd (controller_deleteEvent answering_outside hex_world
        ''65a1b2c3d4e5f60718293a4c'' None None)) = transport hex_world"
proof -
  have h: "\<not> truthy None \<or> \<not> truthy None" by simp
  have f: "find (\<lambda>e. externalId e = ''65a1b2c3d4e5f60718293a4c'') (calendarEvents hex_world)
       = Some hex_stored_event"
    by (simp add: hex_world_def hex_stored_event_def)
  have c: "castObjectId answering_outside ''65a1b2c3d4e5f60718293a4c''
       = Some ''65a1b2c3d4e5f60718293a4c''"
    by (simp add: answering_outside_def hex_objectId_def toLowerCase_def lower_char_def
        upper_letters_def lower_letters_def)
  have l: "find (\<lambda>m. meeting_id m = ''65a1b2c3d4e5f60718293a4c'') (loggedMeetings hex_world)
       = None"
    "loggedMeetings hex_world = [sample_logged_meeting]"
    "calendarEvents hex_world = [hex_stored_event]"
    by (simp_all add: hex_world_def sample_logged_meeting_def empty_world_def)
  from local_delete_removes_record[OF h f, of answering_outside "''65a1b2c3d4e5f60718293a4c''"]
  show ?thesis using h f c l by simp
qed

subsection \<open>Microsoft: every kind but in-person is sent as a Teams meeting\<close>















subsection \<open>Creating: what is rejected, and after how many provider calls\<close>

lemma whole_minutes_beyond_a_day: "86460000 \<le> d \<Longrightarrow> 1440 < trunc_div d 60000"
  by (simp add: trunc_div_def)

lemma google_validate_rejects:
  assumes "parseISO rt s = Some ts" and "parseISO rt e = Some te"
    and "te \<le> ts \<or> 86460000 \<le> te - ts"
  shows "\<exists>m. google_validateTimeLogic rt s e = Inl (BadRequestException m)"
  using assms whole_minutes_beyond_a_day[of "te - ts"]
  by (auto simp: google_validateTimeLogic_def Let_def)

lemma graph_validate_rejects:
  assumes "parseISO rt s = Some ts" and "parseISO rt e = Some te"
    and "te \<le> ts \<or> 86460000 \<le> te - ts"
  shows "\<exists>m. graph_validateTimeLogic rt now s e = Inl (BadRequestException m)"
  using assms whole_minutes_beyond_a_day[of "te - ts"]
  by (auto simp: graph_validateTimeLogic_def Let_def)

lemma google_createEvent_rejects:
  assumes "parseISO rt (c_startTime dto) = Some ts" and "parseISO rt (c_endTime dto) = Some te"
    and "te \<le> ts \<or> 86460000 \<le> te - ts" and "token \<noteq> []"
  shows "\<exists>m. google_createEvent rt out now w token dto = (Inl (BadRequestException m), w)"
proof -
  from google_validate_rejects[OF assms(1,2,3)] obtain m where
    "google_validateTimeLogic rt (c_startTime dto) (c_endTime dto) = Inl (BadRequestException m)"
    by blast
  then show ?thesis using assms(4) by (simp add: google_createEvent_def google_create_catch_def)
qed

lemma graph_createEvent_rejects:
  assumes "parseISO rt (c_startTime dto) = Some ts" and "parseISO rt (c_endTime dto) = Some te"
    and "te \<le> ts \<or> 86460000 \<le> te - ts"
  shows "\<exists>m. graph_createEvent rt out now w token dto =
     (Inl (BadRequestException m),
      request w \<lparr> http_method = ''GET'', http_endpoint = ''me/calendar'',
                  http_token = token, http_body = NoBody \<rparr>)"
proof -
  from graph_validate_rejects[OF assms] obtain m where
    "graph_validateTimeLogic rt now (c_startTime dto) (c_endTime dto)
       = Inl (BadRequestException m)"
    by blast
  then show ?thesis
    by (simp add: graph_createEvent_def validateCalendarAccess_def graph_create_catch_def Let_def
        split: sum.splits)
qed

text \<open>
  The Google validation counts whole minutes: an event of 24 hours and 30 seconds passes it.
\<close>

lemma google_validate_accepts_a_day_and_30s:
  "google_validateTimeLogic sample_runtime
     ''2030-01-01T10:00:00.000Z'' ''2030-01-02T10:00:30.000Z'' = Inr ()"
  by (simp add: google_validateTimeLogic_def sample_runtime_def sample_instants_def
      trunc_div_def)

text \<open>
  C2, as stated, at a request whose end lies an hour before its start, sent to the Microsoft
  adapter in the empty world: the request is rejected, but one provider request, the
  calendar access check, has been made before the rejection. The transport call count is
  one, not zero.
\<close>

theorem graph_createEvent_calls_before_validating_counterexample:
  "parseISO sample_runtime (c_startTime reversed_create) = Some 1893495600000
   \<and> parseISO sample_runtime (c_endTime reversed_create) = Some 1893492000000
   \<and> transport empty_world = []
   \<and> graph_createEvent sample_runtime answering_outside 1893488400000 empty_world ''token''
        reversed_create
       = (Inl (BadRequestException
            ''Failed to create calendar event: End time must be after start time''),
          empty_world\<lparr>transport :=
            [\<lparr> http_method = ''GET'', http_endpoint = ''me/calendar'',
               http_token = ''token'', http_body = NoBody \<rparr>]\<rparr>)"
  by (simp add: graph_createEvent_def validateCalendarAccess_def graph_validateTimeLogic_def
      graph_create_catch_def request_def answering_outside_def sample_runtime_def
      sample_instants_def reversed_create_def sample_create_def empty_world_def)

text \<open>
  C2, amended. For a create request whose start and end parse, and whose end is not after
  its start or whose duration is 24 hours and one minute or more: the Google \<^verbatim>\<open>createEvent\<close>,
  given a non-empty token, ends with a bad-request error and leaves the world untouched (no
  provider request, nothing persisted); the Microsoft \<^verbatim>\<open>createEvent\<close> ends with a
  bad-request error after exactly one provider request, the GET of \<^verbatim>\<open>me/calendar\<close> that
  precedes its validation, with no create request sent and nothing persisted.
\<close>

theorem createEvent_rejects_bad_times:
  assumes "parseISO rt (c_startTime dto) = Some ts" and "parseISO rt (c_endTime dto) = Some te"
    and "te \<le> ts \<or> 86460000 \<le> te - ts" and "token \<noteq> []"
  shows "(\<exists>m. google_createEvent rt out now w token dto = (Inl (BadRequestException m), w))
     \<and> (\<exists>m. fst (graph_createEvent rt out now w token dto) = Inl (BadRequestException m))
     \<and> transport (snd (graph_createEvent rt out now w token dto)) =
         transport w @ [\<lparr> http_method = ''GET'', http_endpoint = ''me/calendar'',
                           http_token = token, http_body = NoBody \<rparr>]
     \<and> calendarEvents (snd (graph_createEvent rt out now w token dto)) = calendarEvents w
     \<and> storeCalls (snd (graph_createEvent rt out now w token dto)) = storeCalls w"
proof -
  from graph_createEvent_rejects[OF assms(1,2,3), of out now w token] obtain m where
    "graph_createEvent rt out now w token dto =
       (Inl (BadRequestException m),
        request w \<lparr> http_method = ''GET'', http_endpoint = ''me/calendar'',
                    http_token = token, http_body = NoBody \<rparr>)"
    by blast
  then show ?thesis
    using google_createEvent_rejects[OF assms, of out now w] by (simp add: request_def)
qed

theorem createEvent_rejects_bad_times_witness:
  "parseISO sample_runtime (c_startTime reversed_create) = Some 1893495600000
   \<and> parseISO sample_runtime (c_endTime reversed_create) = Some 1893492000000
   \<and> (1893492000000 :: int) \<le> 1893495600000
   \<and> ''token'' \<noteq> []
   \<and> google_createEvent sample_runtime answering_outside 1893488400000 empty_world ''token''
        reversed_create
       = (Inl (BadRequestException ''Start time must be before end time''), empty_world)
   \<and> length (transport (snd (graph_createEvent sample_runtime answering_outside 1893488400000
        empty_world ''token'' reversed_create))) = 1
   \<and> calendarEvents (snd (graph_createEvent sample_runtime answering_outside 1893488400000
        empty_world ''token'' reversed_create)) = []"
proof -
  have s: "parseISO sample_runtime (c_startTime reversed_create) = Some 1893495600000"
    by (simp add: sample_runtime_def sample_instants_def reversed_create_def)
  have e: "parseISO sample_runtime (c_endTime reversed_create) = Some 1893492000000"
    by (simp add: sample_runtime_def sample_instants_def reversed_create_def)
  have b: "(1893492000000 :: int) \<le> 1893495600000 \<or> (86460000 :: int) \<le> 1893492000000 - 1893495600000"
    by simp
  have t: "''token'' \<noteq> []" by simp
  have g: "fst (google_createEvent sample_runtime answering_outside 1893488400000 empty_world
        ''token'' reversed_create)
       = Inl (BadRequestException ''Start time must be before end time'')"
    by (simp add: google_createEvent_def google_validateTimeLogic_def google_create_catch_def s e)
  from createEvent_rejects_bad_times[OF s e b t, of answering_outside 1893488400000 empty_world]
  show ?thesis using s e g by (auto simp: empty_world_def)
qed

subsection \<open>Updating: the sparse merge of start and end\<close>

text \<open>
  Up to \<^verbatim>\<open>2^53\<close> the double arithmetic is exact; beyond, it rounds, as for the difference
  9007199254740993 of the time values -367199254740993 and 8640000000000000. Rounding keeps
  the sign.
\<close>

lemma ulp_small: "a < 9007199254740992 \<Longrightarrow> ulp a = 1"
  by (simp add: ulp.simps)



lemma ulp_pos: "0 < ulp a"
  by (induction a rule: ulp.induct) (subst ulp.simps, simp)

lemma ulp_le: "1 \<le> a \<Longrightarrow> ulp a \<le> a"
proof (induction a rule: ulp.induct)
  case (1 a)
  show ?case
  proof (cases "a < 9007199254740992")
    case True
    then show ?thesis using 1(2) by (simp add: ulp_small)
  next
    case False
    then have "1 \<le> a div 2" by simp
    from 1(1)[OF False this] have "2 * ulp (a div 2) \<le> 2 * (a div 2)" by simp
    also have "\<dots> \<le> a" by simp
    finally show ?thesis using False by (subst ulp.simps) simp
  qed
qed

lemma round_half_even_pos:
  assumes "0 < u" and "u \<le> a"
  shows "0 < round_half_even u a"
proof -
  from assms have q: "0 < a div u" by (simp add: pos_imp_zdiv_pos_iff)
  then have "0 < a div u * u" "0 < (a div u + 1) * u" using assms(1) by simp_all
  then show ?thesis by (simp add: round_half_even_def Let_def)
qed

lemma to_double_pos: "0 < to_double x \<longleftrightarrow> 0 < x"
proof (cases "x = 0")
  case True
  then show ?thesis by (simp add: to_double_def)
next
  case False
  then have "1 \<le> \<bar>x\<bar>" by simp
  from round_half_even_pos[OF ulp_pos ulp_le[OF this]]
  have "0 < round_half_even (ulp \<bar>x\<bar>) \<bar>x\<bar>" .
  then show ?thesis using False
    by (cases "0 < x") (simp_all add: to_double_def sgn_if)
qed

text \<open>
  With an empty answer to the GET, an update of the title alone builds its body, and an
  update of the start alone ends in the \<^verbatim>\<open>TypeError\<close> of its first read.
\<close>

lemma google_update_payload_undefined_title_only:
  "google_update_payload rt out now None (no_update\<lparr>u_title := Some ''Sync''\<rparr>)
     = Inr \<lparr> gp_summary = Some ''Sync'', gp_description = None, gp_start = None,
             gp_end = None, gp_attendees = None, gp_location = None,
             gp_conferenceData = None \<rparr>"
  by (simp add: google_update_payload_def google_update_times_undefined_def no_update_def)

lemma google_update_payload_undefined_start_only:
  "google_update_payload rt out now None start_only_update
     = Inl (JsError (''Cannot read properties of undefined (reading '' @ [CHR 0x27]
                     @ ''start'' @ [CHR 0x27] @ '')''))"
  by (simp add: google_update_payload_def google_update_times_undefined_def undefined_read_def
      start_only_update_def no_update_def)


text \<open>A computed end beyond the range of a \<^verbatim>\<open>Date\<close> is the Invalid Date, and no body is built.\<close>

lemma google_update_times_out_of_range:
  assumes "truthy (u_startTime dto)" and "\<not> truthy (u_endTime dto)"
    and "google_time_value rt now (ge_start existing) = Some s0"
    and "google_time_value rt now (ge_end existing) = Some e0"
    and "Date_parse rt (the (u_startTime dto)) = Some n"
    and "8640000000000000 < \<bar>to_double (n + to_double (e0 - s0))\<bar>"
  shows "google_update_times rt now existing dto = Inl (JsError ''Invalid time value'')"
  using assms
  by (simp add: google_update_times_def new_Date_of_number_def date_toISOString_def Let_def)


































subsection \<open>The feed is sorted newest first, and stably\<close>

lemma js_insert_insort_key:
  assumes "\<forall>y \<in> set (x # ys). feed_time rt y \<noteq> None"
  shows "js_insert (feed_compare rt) x ys = insort_key (\<lambda>x. - the (feed_time rt x)) x ys"
  using assms
proof (induction ys)
  case Nil
  show ?case by simp
next
  case (Cons y ys)
  then obtain tx ty where t: "feed_time rt x = Some tx" "feed_time rt y = Some ty" by auto
  then have c: "feed_compare rt x y = Some (to_double (ty - tx))"
    by (simp add: feed_compare_def feed_time_def)
  show ?case using Cons t by (simp add: c to_double_pos)
qed

lemma js_sort_sort_key:
  assumes "\<forall>y \<in> set xs. feed_time rt y \<noteq> None"
  shows "js_sort (feed_compare rt) xs = sort_key (\<lambda>x. - the (feed_time rt x)) xs"
  using assms
proof (induction xs)
  case Nil
  show ?case by (simp add: js_sort_def)
next
  case (Cons x xs)
  then have ih: "js_sort (feed_compare rt) xs = sort_key (\<lambda>x. - the (feed_time rt x)) xs"
    by simp
  have "\<forall>y \<in> set (x # sort_key (\<lambda>x. - the (feed_time rt x)) xs). feed_time rt y \<noteq> None"
    using Cons.prems by simp
  from js_insert_insort_key[OF this] show ?case
    using ih by (simp add: js_sort_def)
qed

lemma sorted_wrt_newest_first:
  "sorted (map (\<lambda>x. - the (feed_time rt x)) xs)
   \<Longrightarrow> sorted_wrt (\<lambda>a b. the (feed_time rt a) \<ge> the (feed_time rt b)) xs"
  by (induction xs) auto

lemma merge_feed_sorted_stable:
  assumes "\<forall>x \<in> set (cs @ ms). feed_time rt x \<noteq> None"
  shows "sorted_wrt (\<lambda>a b. the (feed_time rt a) \<ge> the (feed_time rt b)) (merge_feed rt cs ms)"
    and "filter (\<lambda>x. feed_time rt x = Some t) (merge_feed rt cs ms)
          = filter (\<lambda>x. feed_time rt x = Some t) (cs @ ms)"
    and "set (merge_feed rt cs ms) = set (cs @ ms)"
    and "length (merge_feed rt cs ms) = length cs + length ms"
    and "js_sort (feed_compare rt) (merge_feed rt cs ms) = merge_feed rt cs ms"
proof -
  let ?f = "\<lambda>x. - the (feed_time rt x)"
  have m: "merge_feed rt cs ms = sort_key ?f (cs @ ms)"
    using js_sort_sort_key[OF assms] by (simp add: merge_feed_def)
  have s: "sorted (map ?f (merge_feed rt cs ms))" by (simp add: m)
  then show "sorted_wrt (\<lambda>a b. the (feed_time rt a) \<ge> the (feed_time rt b)) (merge_feed rt cs ms)"
    by (rule sorted_wrt_newest_first)
  have all: "\<forall>x \<in> set (merge_feed rt cs ms). feed_time rt x \<noteq> None"
    using assms by (simp add: m)
  have k: "\<And>xs. \<forall>x \<in> set xs. feed_time rt x \<noteq> None \<Longrightarrow>
     filter (\<lambda>x. feed_time rt x = Some t) xs = filter (\<lambda>x. ?f x = - t) xs"
    by (rule filter_cong) auto
  have "filter (\<lambda>x. feed_time rt x = Some t) (merge_feed rt cs ms)
          = filter (\<lambda>x. ?f x = - t) (merge_feed rt cs ms)"
    by (rule k[OF all])
  also have "\<dots> = filter (\<lambda>x. ?f x = - t) (sort_key ?f (cs @ ms))"
    by (simp only: m)
  also have "\<dots> = filter (\<lambda>x. ?f x = - t) (cs @ ms)"
    by (rule sort_key_stable)
  also have "\<dots> = filter (\<lambda>x. feed_time rt x = Some t) (cs @ ms)"
    by (rule k[OF assms, symmetric])
  finally show "filter (\<lambda>x. feed_time rt x = Some t) (merge_feed rt cs ms)
          = filter (\<lambda>x. feed_time rt x = Some t) (cs @ ms)" .
  show "set (merge_feed rt cs ms) = set (cs @ ms)" by (simp add: m)
  show "length (merge_feed rt cs ms) = length cs + length ms" by (simp add: m)
  show "js_sort (feed_compare rt) (merge_feed rt cs ms) = merge_feed rt cs ms"
    using js_sort_sort_key[OF all] s by (simp add: sort_key_id_if_sorted)
qed

lemma map_throwing_Inr:
  "map_throwing f xs = Inr ys \<Longrightarrow> list_all2 (\<lambda>x y. f x = Inr y) xs ys"
  by (induction xs arbitrary: ys) (auto split: sum.splits)

lemma map_calendar_event_Inr:
  assumes "map_calendar_event rt prof e = Inr y"
  shows "\<exists>t. startTime e = Some t \<and> feed_startTime y = toISOString rt t"
    and "feed_id y = externalId e"
  using assms
  by (auto simp: map_calendar_event_def date_toISOString_def split: sum.splits option.splits)

lemma map_logged_meeting_Inr:
  assumes "map_logged_meeting rt m = Inr y"
  shows "\<exists>t. meetingDateTime m = Some t \<and> feed_startTime y = toISOString rt t"
    and "feed_id y = meeting_id m"
  using assms
  by (auto simp: map_logged_meeting_def date_toISOString_def split: sum.splits option.splits)

lemma mapped_calendar_events:
  assumes "map_throwing (map_calendar_event rt prof) es = Inr cs"
    and "\<forall>e \<in> set es. \<forall>t. startTime e = Some t \<longrightarrow> Date_parse rt (toISOString rt t) = Some t"
  shows "map feed_id cs = map externalId es" and "\<forall>x \<in> set cs. feed_time rt x \<noteq> None"
proof -
  from map_throwing_Inr[OF assms(1)]
  have l: "list_all2 (\<lambda>e y. map_calendar_event rt prof e = Inr y) es cs" .
  then show "map feed_id cs = map externalId es"
    by (induction rule: list_all2_induct) (auto dest: map_calendar_event_Inr(2))
  from l assms(2) show "\<forall>x \<in> set cs. feed_time rt x \<noteq> None"
  proof (induction rule: list_all2_induct)
    case Nil
    show ?case by simp
  next
    case (Cons e es y ys)
    from map_calendar_event_Inr(1)[OF Cons.hyps(1)] obtain t where
      "startTime e = Some t" "feed_startTime y = toISOString rt t" by blast
    with Cons.prems have "feed_time rt y = Some t" by (simp add: feed_time_def)
    with Cons show ?case by simp
  qed
qed

lemma mapped_logged_meetings:
  assumes "map_throwing (map_logged_meeting rt) ls = Inr ms"
    and "\<forall>m \<in> set ls. \<forall>t. meetingDateTime m = Some t
           \<longrightarrow> Date_parse rt (toISOString rt t) = Some t"
  shows "map feed_id ms = map meeting_id ls" and "\<forall>x \<in> set ms. feed_time rt x \<noteq> None"
proof -
  from map_throwing_Inr[OF assms(1)]
  have l: "list_all2 (\<lambda>m y. map_logged_meeting rt m = Inr y) ls ms" .
  then show "map feed_id ms = map meeting_id ls"
    by (induction rule: list_all2_induct) (auto dest: map_logged_meeting_Inr(2))
  from l assms(2) show "\<forall>x \<in> set ms. feed_time rt x \<noteq> None"
  proof (induction rule: list_all2_induct)
    case Nil
    show ?case by simp
  next
    case (Cons m ls y ys)
    from map_logged_meeting_Inr(1)[OF Cons.hyps(1)] obtain t where
      "meetingDateTime m = Some t" "feed_startTime y = toISOString rt t" by blast
    with Cons.prems have "feed_time rt y = Some t" by (simp add: feed_time_def)
    with Cons show ?case by simp
  qed
qed

lemma getLocalEvents_Inr:
  assumes "fst (getLocalEvents rt out w pf uf lf ah cp) = Inr items"
  shows "\<exists>prof cs ms.
     map_throwing (map_calendar_event rt prof)
       (filter (calendar_query pf uf lf) (calendarEvents w)) = Inr cs
     \<and> map_throwing (map_logged_meeting rt) (filter (logged_query lf) (loggedMeetings w)) = Inr ms
     \<and> items = merge_feed rt cs ms"
  using assms
  by (auto simp: getLocalEvents_def stored_def Let_def split: prod.splits sum.splits if_splits)

text \<open>
  C4. Whenever \<^verbatim>\<open>getLocalEvents\<close> returns a feed, in a runtime that reads the ISO text of
  each stored time back to that time: the feed is the sort of the mapped calendar events (in
  query order) followed by the mapped logged meetings (in query order); every earlier item
  has a start time at or after that of every later item; the items of any one start time
  stand in their input order, calendar events before logged meetings; and sorting the feed
  again gives the same feed.
\<close>

theorem local_feed_is_sorted_newest_first:
  assumes "\<forall>e \<in> set (calendarEvents w). \<forall>t. startTime e = Some t
             \<longrightarrow> Date_parse rt (toISOString rt t) = Some t"
    and "\<forall>m \<in> set (loggedMeetings w). \<forall>t. meetingDateTime m = Some t
             \<longrightarrow> Date_parse rt (toISOString rt t) = Some t"
    and "fst (getLocalEvents rt out w pf uf lf ah cp) = Inr items"
  shows "\<exists>cs ms. items = merge_feed rt cs ms
     \<and> map feed_id cs = map externalId (filter (calendar_query pf uf lf) (calendarEvents w))
     \<and> map feed_id ms = map meeting_id (filter (logged_query lf) (loggedMeetings w))
     \<and> sorted_wrt (\<lambda>a b. the (feed_time rt a) \<ge> the (feed_time rt b)) items
     \<and> (\<forall>t. filter (\<lambda>x. feed_time rt x = Some t) items
             = filter (\<lambda>x. feed_time rt x = Some t) (cs @ ms))
     \<and> length items = length cs + length ms
     \<and> js_sort (feed_compare rt) items = items"
proof -
  from getLocalEvents_Inr[OF assms(3)] obtain prof cs ms where
    c: "map_throwing (map_calendar_event rt prof)
          (filter (calendar_query pf uf lf) (calendarEvents w)) = Inr cs"
    and m: "map_throwing (map_logged_meeting rt)
          (filter (logged_query lf) (loggedMeetings w)) = Inr ms"
    and i: "items = merge_feed rt cs ms"
    by blast
  have rc: "\<forall>e \<in> set (filter (calendar_query pf uf lf) (calendarEvents w)).
      \<forall>t. startTime e = Some t \<longrightarrow> Date_parse rt (toISOString rt t) = Some t"
    using assms(1) by auto
  have rm: "\<forall>m \<in> set (filter (logged_query lf) (loggedMeetings w)).
      \<forall>t. meetingDateTime m = Some t \<longrightarrow> Date_parse rt (toISOString rt t) = Some t"
    using assms(2) by auto
  have all: "\<forall>x \<in> set (cs @ ms). feed_time rt x \<noteq> None"
    using mapped_calendar_events(2)[OF c rc] mapped_logged_meetings(2)[OF m rm] by auto
  show ?thesis
    using i mapped_calendar_events(1)[OF c rc] mapped_logged_meetings(1)[OF m rm]
      merge_feed_sorted_stable[OF all]
    by blast
qed

theorem local_feed_is_sorted_newest_first_witness:
  "map feed_id (projr (fst (getLocalEvents sample_runtime answering_outside feed_world
      None None None None None))) = [''evt-2'', ''65a1b2c3d4e5f60718293a4b'', ''evt-1'']
   \<and> map (feed_time sample_runtime) (projr (fst (getLocalEvents sample_runtime
      answering_outside feed_world None None None None None)))
      = [Some 1893499200000, Some 1893499200000, Some 1893492000000]
   \<and> sorted_wrt (\<lambda>a b. the (feed_time sample_runtime a) \<ge> the (feed_time sample_runtime b))
       (projr (fst (getLocalEvents sample_runtime answering_outside feed_world
          None None None None None)))
   \<and> js_sort (feed_compare sample_runtime)
       (projr (fst (getLocalEvents sample_runtime answering_outside feed_world
          None None None None None)))
      = projr (fst (getLocalEvents sample_runtime answering_outside feed_world
          None None None None None))"
proof -
  let ?r = "fst (getLocalEvents sample_runtime answering_outside feed_world
      None None None None None)"
  have ev: "getLocalEvents sample_runtime answering_outside feed_world None None None None None
      = (Inr (projr ?r), snd (getLocalEvents sample_runtime answering_outside feed_world
            None None None None None))
     \<and> map feed_id (projr ?r) = [''evt-2'', ''65a1b2c3d4e5f60718293a4b'', ''evt-1'']
     \<and> map (feed_time sample_runtime) (projr ?r)
          = [Some 1893499200000, Some 1893499200000, Some 1893492000000]"
    by (simp add: getLocalEvents_def calendar_query_def logged_query_def map_calendar_event_def
        map_logged_meeting_def date_toISOString_def merge_feed_def js_sort_def feed_compare_def
        feed_time_def feed_organizerName_of_def stored_def feed_world_def empty_world_def
        sample_stored_event_def sample_logged_meeting_def sample_runtime_def
        sample_instants_def to_double_pos)
  then have r: "?r = Inr (projr ?r)" by (metis fst_conv)
  have c: "\<forall>e \<in> set (calendarEvents feed_world). \<forall>t. startTime e = Some t
             \<longrightarrow> Date_parse sample_runtime (toISOString sample_runtime t) = Some t"
    by (simp add: feed_world_def empty_world_def sample_stored_event_def sample_runtime_def
        sample_instants_def)
  have m: "\<forall>m \<in> set (loggedMeetings feed_world). \<forall>t. meetingDateTime m = Some t
             \<longrightarrow> Date_parse sample_runtime (toISOString sample_runtime t) = Some t"
    by (simp add: feed_world_def empty_world_def sample_logged_meeting_def sample_runtime_def
        sample_instants_def)
  from local_feed_is_sorted_newest_first[OF c m r]
  show ?thesis using ev by blast
qed

subsection \<open>Contact de-duplication keeps the first holder of each key\<close>












text \<open>
  A contact that carries two addresses is entered under each of them, and the values of the
  map list it twice.
\<close>

lemma graph_contact_listed_once_per_address:
  "graph_removeDuplicateContacts [graph_contact ''c1'' [''ann@example.com'', ''ann.b@example.com'']]
     = [graph_contact ''c1'' [''ann@example.com'', ''ann.b@example.com''],
        graph_contact ''c1'' [''ann@example.com'', ''ann.b@example.com'']]"
  by (simp add: graph_removeDuplicateContacts_def values_of_def has_def set_fresh_def
      graph_contact_def toLowerCase_def lower_char_def upper_letters_def lower_letters_def
      Let_def)





end
